theory Spec2Isabelle
  imports Main "HOL-Library.Word"
begin

section \<open>Go values used by \<^verbatim>\<open>types/queries.go\<close>\<close>

text \<open>
  A Go \<^verbatim>\<open>string\<close> and the contents of a \<^verbatim>\<open>[]byte\<close> are byte sequences: \<^typ>\<open>char list\<close>.
  A slice can be \<^verbatim>\<open>nil\<close>, which \<^verbatim>\<open>encoding/json\<close> tells apart from an empty slice
  (\<^verbatim>\<open>null\<close> against \<^verbatim>\<open>""\<close>), so a \<^verbatim>\<open>[]byte\<close> is a \<^typ>\<open>char list option\<close> with
  \<^term>\<open>None\<close> for \<^verbatim>\<open>nil\<close>. A pointer field is an option as well.
\<close>

type_synonym bytes = "char list"
type_synonym byte_slice = "bytes option"
type_synonym uint64 = "64 word"
type_synonym uint16 = "16 word"

text \<open>Go's \<^verbatim>\<open>len\<close> of a slice: 0 for \<^verbatim>\<open>nil\<close>.\<close>

definition len_slice :: "byte_slice \<Rightarrow> nat" where
  "len_slice b = (case b of None \<Rightarrow> 0 | Some xs \<Rightarrow> length xs)"

section \<open>The part of \<^verbatim>\<open>encoding/json\<close> that the package relies on\<close>

text \<open>
  \<^verbatim>\<open>queries.go\<close> leaves the wire format to Go's \<^verbatim>\<open>encoding/json\<close>: struct tags, two
  \<^verbatim>\<open>MarshalJSON\<close> methods and one \<^verbatim>\<open>UnmarshalJSON\<close>. The library is modelled in two layers,
  as it works itself: the text of a document and the JSON value it denotes. A value that has
  been read has its escapes resolved in every \<^term>\<open>JStr\<close>; a value to be written carries the Go
  strings as they are. A number keeps its literal, as the library's scanner does; an object
  keeps its members in order, duplicates included.
\<close>

datatype json =
    JNull
  | JBool bool
  | JNum string
  | JStr string
  | JArr "json list"
  | JObj "(string \<times> json) list"

text \<open>
  The errors a decoder returns: the library's \<^verbatim>\<open>SyntaxError\<close>, \<^verbatim>\<open>UnmarshalTypeError\<close> and
  base64's \<^verbatim>\<open>CorruptInputError\<close>, and an error made by \<^verbatim>\<open>fmt.Errorf\<close> with its message.
\<close>

datatype go_error =
    SyntaxError
  | UnmarshalTypeError
  | CorruptInputError
  | Errorf string

type_synonym 'a decoder = "json \<Rightarrow> 'a \<Rightarrow> go_error + 'a"

subsection \<open>Base64 (\<^verbatim>\<open>base64.StdEncoding\<close>)\<close>

text \<open>
  \<^verbatim>\<open>encoding/json\<close> writes a \<^verbatim>\<open>[]byte\<close> as a string in standard base64 with padding, and
  reads it with the same encoding. The alphabet is \<^verbatim>\<open>A-Z\<close>, \<^verbatim>\<open>a-z\<close>, \<^verbatim>\<open>0-9\<close>, \<^verbatim>\<open>+\<close>, \<^verbatim>\<open>/\<close>:
  \<open>b64_char\<close> is the character of a 6-bit value and \<open>b64_index\<close> the value of a character.
  The decoder skips carriage returns and line feeds, takes the rest in groups of four
  characters, accepts padding in the last group only, and does not check the unused bits
  of a padded group.
\<close>

definition b64_char :: "nat \<Rightarrow> char" where
  "b64_char n =
     (if n < 26 then char_of (65 + n)
      else if n < 52 then char_of (71 + n)
      else if n < 62 then char_of (n - 4)
      else if n = 62 then CHR ''+'' else CHR ''/'')"

definition b64_index :: "char \<Rightarrow> nat option" where
  "b64_index c =
     (let k = (of_char c :: nat) in
      if 65 \<le> k \<and> k \<le> 90 then Some (k - 65)
      else if 97 \<le> k \<and> k \<le> 122 then Some (k - 71)
      else if 48 \<le> k \<and> k \<le> 57 then Some (k + 4)
      else if k = 43 then Some 62
      else if k = 47 then Some 63
      else None)"

fun b64_encode :: "bytes \<Rightarrow> string" where
  "b64_encode [] = []"
| "b64_encode [a] =
     (let x = (of_char a :: nat) in
      [b64_char (x div 4), b64_char ((x mod 4) * 16), CHR ''='', CHR ''=''])"
| "b64_encode [a, b] =
     (let x = (of_char a :: nat); y = (of_char b :: nat) in
      [b64_char (x div 4), b64_char ((x mod 4) * 16 + y div 16),
       b64_char ((y mod 16) * 4), CHR ''=''])"
| "b64_encode (a # b # c # rest) =
     (let x = (of_char a :: nat); y = (of_char b :: nat); z = (of_char c :: nat) in
      [b64_char (x div 4), b64_char ((x mod 4) * 16 + y div 16),
       b64_char ((y mod 16) * 4 + z div 64), b64_char (z mod 64)] @ b64_encode rest)"

fun b64_quanta :: "string \<Rightarrow> bytes option" where
  "b64_quanta [] = Some []"
| "b64_quanta (a # b # c # d # rest) =
     (case (b64_index a, b64_index b) of
        (Some x, Some y) \<Rightarrow>
          (if c = CHR ''='' then
             (if d = CHR ''='' \<and> rest = [] then Some [char_of (x * 4 + y div 16)] else None)
           else
             (case b64_index c of
                None \<Rightarrow> None
              | Some z \<Rightarrow>
                  (if d = CHR ''='' then
                     (if rest = [] then
                        Some [char_of (x * 4 + y div 16), char_of ((y mod 16) * 16 + z div 4)]
                      else None)
                   else
                     (case b64_index d of
                        None \<Rightarrow> None
                      | Some w \<Rightarrow>
                          (case b64_quanta rest of
                             None \<Rightarrow> None
                           | Some bs \<Rightarrow>
                               Some (char_of (x * 4 + y div 16)
                                     # char_of ((y mod 16) * 16 + z div 4)
                                     # char_of ((z mod 4) * 64 + w) # bs))))))
      | _ \<Rightarrow> None)"
| "b64_quanta _ = None"

definition b64_decode :: "string \<Rightarrow> bytes option" where
  "b64_decode s = b64_quanta (filter (\<lambda>c. c \<noteq> CHR 0x0D \<and> c \<noteq> CHR 0x0A) s)"

subsection \<open>Strings: valid UTF-8, and the folding of member names\<close>

definition byte_in :: "char \<Rightarrow> nat \<Rightarrow> nat \<Rightarrow> bool" where
  "byte_in c lo hi = (lo \<le> of_char c \<and> (of_char c :: nat) \<le> hi)"

text \<open>
  The width of the UTF-8 sequence at the head of a string, 0 when there is none
  (\<^verbatim>\<open>utf8.DecodeRune\<close> then returns \<^verbatim>\<open>RuneError\<close> with width 1).
\<close>

fun utf8_width :: "string \<Rightarrow> nat" where
  "utf8_width [] = 0"
| "utf8_width (a # rest) =
     (let x = (of_char a :: nat) in
      if x < 0x80 then 1
      else if 0xC2 \<le> x \<and> x \<le> 0xDF then
        (case rest of b # _ \<Rightarrow> if byte_in b 0x80 0xBF then 2 else 0 | _ \<Rightarrow> 0)
      else if 0xE0 \<le> x \<and> x \<le> 0xEF then
        (case rest of
           b # c # _ \<Rightarrow>
             if byte_in b (if x = 0xE0 then 0xA0 else 0x80) (if x = 0xED then 0x9F else 0xBF)
                \<and> byte_in c 0x80 0xBF
             then 3 else 0
         | _ \<Rightarrow> 0)
      else if 0xF0 \<le> x \<and> x \<le> 0xF4 then
        (case rest of
           b # c # d # _ \<Rightarrow>
             if byte_in b (if x = 0xF0 then 0x90 else 0x80) (if x = 0xF4 then 0x8F else 0xBF)
                \<and> byte_in c 0x80 0xBF \<and> byte_in d 0x80 0xBF
             then 4 else 0
         | _ \<Rightarrow> 0)
      else 0)"

text \<open>U+FFFD, the replacement character, in UTF-8.\<close>

definition replacement_char :: string where
  "replacement_char = [CHR 0xEF, CHR 0xBF, CHR 0xBD]"

text \<open>
  The encoder writes a Go string ``coerced to valid UTF-8, replacing invalid bytes with the
  Unicode replacement rune'', and the decoder does the same to the text of a string literal.
\<close>

function utf8_coerce :: "string \<Rightarrow> string" where
  "utf8_coerce [] = []"
| "utf8_coerce (a # rest) =
     (case utf8_width (a # rest) of
        0 \<Rightarrow> replacement_char @ utf8_coerce rest
      | Suc n \<Rightarrow> a # take n rest @ utf8_coerce (drop n rest))"
  by pat_completeness auto
termination
  by (relation "measure length") auto

text \<open>
  A member name selects the struct field whose tag name it equals, or else equals under
  Unicode simple case folding (\<^verbatim>\<open>foldName\<close>). The tag names of this package are ASCII, so
  only the runes that fold to an ASCII letter matter: the letters themselves, U+212A (Kelvin
  sign, folds to K) and U+017F (long s, folds to S). No two fields of a struct of this package
  have tag names that fold to the same string, so the preference for an exact match never
  decides between two fields.
\<close>

fun fold_name :: "string \<Rightarrow> string" where
  "fold_name [] = []"
| "fold_name (a # rest) =
     (if byte_in a 0x61 0x7A then char_of ((of_char a :: nat) - 32) # fold_name rest
      else if a = CHR 0xC5 then
        (case rest of
           b # rest' \<Rightarrow> if b = CHR 0xBF then CHR ''S'' # fold_name rest' else a # fold_name rest
         | [] \<Rightarrow> [a])
      else if a = CHR 0xE2 then
        (case rest of
           b # c # rest' \<Rightarrow>
             if b = CHR 0x84 \<and> c = CHR 0xAA then CHR ''K'' # fold_name rest' else a # fold_name rest
         | _ \<Rightarrow> a # fold_name rest)
      else a # fold_name rest)"

definition names_field :: "string \<Rightarrow> string \<Rightarrow> bool" where
  "names_field key tag = (key = tag \<or> fold_name key = fold_name tag)"

subsection \<open>Encoding and decoding of field types\<close>

text \<open>Decimal numerals, as \<^verbatim>\<open>strconv\<close> writes and reads unsigned integers.\<close>

function decimal :: "nat \<Rightarrow> string" where
  "decimal n =
     (if n < 10 then [char_of (48 + n)] else decimal (n div 10) @ [char_of (48 + n mod 10)])"
  by pat_completeness auto
termination
  by (relation "measure (\<lambda>n. n)") auto

definition parse_uint :: "string \<Rightarrow> nat option" where
  "parse_uint s =
     (if s \<noteq> [] \<and> list_all (\<lambda>c. byte_in c 0x30 0x39) s
      then Some (foldl (\<lambda>acc c. acc * 10 + ((of_char c :: nat) - 48)) 0 s)
      else None)"

text \<open>
  Encoding. A string is handed to the writer as it is (the writer coerces it to valid UTF-8,
  see \<open>render\<close> and \<open>denote\<close>); a \<^verbatim>\<open>[]byte\<close> is \<^verbatim>\<open>null\<close> when nil and a base64 string
  otherwise; an unsigned integer is its decimal numeral.
\<close>

definition enc_string :: "string \<Rightarrow> json" where
  "enc_string s = JStr s"

definition enc_bytes :: "byte_slice \<Rightarrow> json" where
  "enc_bytes b = (case b of None \<Rightarrow> JNull | Some xs \<Rightarrow> JStr (b64_encode xs))"

definition enc_uint :: "'a::len word \<Rightarrow> json" where
  "enc_uint w = JNum (decimal (unat w))"

definition enc_ptr :: "('a \<Rightarrow> json) \<Rightarrow> 'a option \<Rightarrow> json" where
  "enc_ptr enc p = (case p of None \<Rightarrow> JNull | Some x \<Rightarrow> enc x)"

text \<open>
  A struct field is one member. With \<^verbatim>\<open>omitempty\<close> the member is left out when the field is
  empty: a nil pointer, a slice or string of length 0.
\<close>

definition member :: "string \<Rightarrow> json \<Rightarrow> (string \<times> json) list" where
  "member tag v = [(tag, v)]"

definition member_omitempty :: "bool \<Rightarrow> string \<Rightarrow> json \<Rightarrow> (string \<times> json) list" where
  "member_omitempty is_empty tag v = (if is_empty then [] else [(tag, v)])"

text \<open>
  Decoding stores into an existing destination. \<^verbatim>\<open>null\<close> sets a pointer or a slice to nil and
  leaves every other destination as it is. A value of the wrong JSON type is an
  \<^verbatim>\<open>UnmarshalTypeError\<close>; the library goes on decoding after it and returns the first such
  error at the end, so the outcome is that error.
\<close>

definition dec_string :: "string decoder" where
  "dec_string v old =
     (case v of JNull \<Rightarrow> Inr old | JStr s \<Rightarrow> Inr s | _ \<Rightarrow> Inl UnmarshalTypeError)"

definition dec_uint :: "('a::len word) decoder" where
  "dec_uint v old =
     (case v of
        JNull \<Rightarrow> Inr old
      | JNum lit \<Rightarrow>
          (case parse_uint lit of
             None \<Rightarrow> Inl UnmarshalTypeError
           | Some n \<Rightarrow> if n < 2 ^ LENGTH('a) then Inr (of_nat n) else Inl UnmarshalTypeError)
      | _ \<Rightarrow> Inl UnmarshalTypeError)"

text \<open>
  A \<^verbatim>\<open>[]byte\<close> is read from a base64 string, and also from an array of numbers, element by
  element; a \<^verbatim>\<open>null\<close> element leaves the byte of the destination (0 in a new element; bytes
  of a reused backing array beyond the old length are not modelled).
\<close>

fun dec_byte_elems :: "json list \<Rightarrow> bytes \<Rightarrow> go_error + bytes" where
  "dec_byte_elems [] old = Inr []"
| "dec_byte_elems (v # vs) old =
     (case dec_uint v (case old of [] \<Rightarrow> (0 :: 8 word) | b # _ \<Rightarrow> of_char b) of
        Inl e \<Rightarrow> Inl e
      | Inr w \<Rightarrow>
          (case dec_byte_elems vs (tl old) of
             Inl e \<Rightarrow> Inl e
           | Inr bs \<Rightarrow> Inr (char_of (unat w) # bs)))"

definition dec_bytes :: "byte_slice decoder" where
  "dec_bytes v old =
     (case v of
        JNull \<Rightarrow> Inr None
      | JStr s \<Rightarrow> (case b64_decode s of None \<Rightarrow> Inl CorruptInputError | Some b \<Rightarrow> Inr (Some b))
      | JArr vs \<Rightarrow>
          (case dec_byte_elems vs (case old of None \<Rightarrow> [] | Some b \<Rightarrow> b) of
             Inl e \<Rightarrow> Inl e
           | Inr b \<Rightarrow> Inr (Some b))
      | _ \<Rightarrow> Inl UnmarshalTypeError)"

text \<open>
  A slice of another element type is read from an array, element by element, into the old
  elements as far as there are any and into zero values beyond; an empty array gives an
  empty slice that is not nil.
\<close>

fun dec_elems :: "'a \<Rightarrow> 'a decoder \<Rightarrow> json list \<Rightarrow> 'a list \<Rightarrow> go_error + 'a list" where
  "dec_elems zero dec [] old = Inr []"
| "dec_elems zero dec (v # vs) old =
     (case dec v (case old of [] \<Rightarrow> zero | x # _ \<Rightarrow> x) of
        Inl e \<Rightarrow> Inl e
      | Inr x \<Rightarrow>
          (case dec_elems zero dec vs (tl old) of
             Inl e \<Rightarrow> Inl e
           | Inr xs \<Rightarrow> Inr (x # xs)))"

definition dec_slice :: "'a \<Rightarrow> 'a decoder \<Rightarrow> ('a list option) decoder" where
  "dec_slice zero dec v old =
     (case v of
        JNull \<Rightarrow> Inr None
      | JArr vs \<Rightarrow>
          (case dec_elems zero dec vs (case old of None \<Rightarrow> [] | Some xs \<Rightarrow> xs) of
             Inl e \<Rightarrow> Inl e
           | Inr xs \<Rightarrow> Inr (Some xs))
      | _ \<Rightarrow> Inl UnmarshalTypeError)"

text \<open>A pointer: \<^verbatim>\<open>null\<close> makes it nil, any other value is decoded into the pointee, allocated
  with the zero value when the pointer is nil.\<close>

definition dec_ptr :: "'a \<Rightarrow> 'a decoder \<Rightarrow> ('a option) decoder" where
  "dec_ptr zero dec v old =
     (case v of
        JNull \<Rightarrow> Inr None
      | _ \<Rightarrow>
          (case dec v (case old of None \<Rightarrow> zero | Some x \<Rightarrow> x) of
             Inl e \<Rightarrow> Inl e
           | Inr x \<Rightarrow> Inr (Some x)))"

text \<open>
  A struct: the members of the object are stored one after the other, each into the field it
  names (\<open>store key value\<close>); a member that names no field is skipped.
\<close>

fun dec_members :: "(string \<Rightarrow> 'a decoder) \<Rightarrow> (string \<times> json) list \<Rightarrow> 'a \<Rightarrow> go_error + 'a" where
  "dec_members store [] x = Inr x"
| "dec_members store ((k, v) # ms) x =
     (case store k v x of Inl e \<Rightarrow> Inl e | Inr x' \<Rightarrow> dec_members store ms x')"

definition dec_struct :: "(string \<Rightarrow> 'a decoder) \<Rightarrow> 'a decoder" where
  "dec_struct store v old =
     (case v of
        JNull \<Rightarrow> Inr old
      | JObj ms \<Rightarrow> dec_members store ms old
      | _ \<Rightarrow> Inl UnmarshalTypeError)"

text \<open>Storing one decoded field: \<open>upd\<close> puts the new value of the field into the struct.\<close>

definition store_field :: "'f decoder \<Rightarrow> ('a \<Rightarrow> 'f) \<Rightarrow> ('f \<Rightarrow> 'a \<Rightarrow> 'a) \<Rightarrow> 'a decoder" where
  "store_field dec get upd v x =
     (case dec v (get x) of Inl e \<Rightarrow> Inl e | Inr f \<Rightarrow> Inr (upd f x))"

subsection \<open>The text of a document: writing\<close>

definition hex_digit :: "nat \<Rightarrow> char" where
  "hex_digit n = (if n < 10 then char_of (48 + n) else char_of (87 + n))"

text \<open>
  \<^verbatim>\<open>json.Marshal\<close> writes a string between double quotes. A double quote and a backslash
  get a backslash in front; backspace, form feed, newline, carriage return and tab get their
  short escapes; the other control characters and, HTML escaping being on, the characters
  \<^verbatim>\<open><\<close>, \<^verbatim>\<open>>\<close> and \<^verbatim>\<open>&\<close> are written as a \<^verbatim>\<open>u00XX\<close> escape; the runes U+2028 and U+2029
  as \<^verbatim>\<open>u2028\<close> and \<^verbatim>\<open>u2029\<close> escapes; a byte that starts no valid UTF-8 sequence as
  U+FFFD. (Releases of the library differ in how they write that U+FFFD, as the rune or as
  its escape; both texts denote the same string, and nothing below depends on the choice.)
\<close>

definition escape_ascii :: "char \<Rightarrow> string" where
  "escape_ascii c =
     (if c = CHR 0x22 \<or> c = CHR 0x5C then [CHR 0x5C, c]
      else if c = CHR 0x08 then [CHR 0x5C, CHR ''b'']
      else if c = CHR 0x0C then [CHR 0x5C, CHR ''f'']
      else if c = CHR 0x0A then [CHR 0x5C, CHR ''n'']
      else if c = CHR 0x0D then [CHR 0x5C, CHR ''r'']
      else if c = CHR 0x09 then [CHR 0x5C, CHR ''t'']
      else if (of_char c :: nat) < 0x20 \<or> c = CHR ''<'' \<or> c = CHR ''>'' \<or> c = CHR ''&'' then
        [CHR 0x5C, CHR ''u'', CHR ''0'', CHR ''0'',
         hex_digit ((of_char c :: nat) div 16), hex_digit ((of_char c :: nat) mod 16)]
      else [c])"

function escape_string :: "string \<Rightarrow> string" where
  "escape_string [] = []"
| "escape_string (a # rest) =
     (case utf8_width (a # rest) of
        0 \<Rightarrow> replacement_char @ escape_string rest
      | Suc n \<Rightarrow>
          (if n = 0 then escape_ascii a @ escape_string rest
           else if a # take n rest = [CHR 0xE2, CHR 0x80, CHR 0xA8] then
             [CHR 0x5C, CHR ''u'', CHR ''2'', CHR ''0'', CHR ''2'', CHR ''8''] @ escape_string (drop n rest)
           else if a # take n rest = [CHR 0xE2, CHR 0x80, CHR 0xA9] then
             [CHR 0x5C, CHR ''u'', CHR ''2'', CHR ''0'', CHR ''2'', CHR ''9''] @ escape_string (drop n rest)
           else a # take n rest @ escape_string (drop n rest)))"
  by pat_completeness auto
termination
  by (relation "measure length") auto

definition quote :: "string \<Rightarrow> string" where
  "quote s = [CHR 0x22] @ escape_string s @ [CHR 0x22]"

fun intersperse :: "string \<Rightarrow> string list \<Rightarrow> string" where
  "intersperse sep [] = []"
| "intersperse sep [x] = x"
| "intersperse sep (x # y # ys) = x @ sep @ intersperse sep (y # ys)"

text \<open>The compact text of a value, as \<^verbatim>\<open>json.Marshal\<close> returns it.\<close>

fun render :: "json \<Rightarrow> string" where
  "render JNull = ''null''"
| "render (JBool b) = (if b then ''true'' else ''false'')"
| "render (JNum lit) = lit"
| "render (JStr s) = quote s"
| "render (JArr vs) = ''['' @ intersperse '','' (map render vs) @ '']''"
| "render (JObj ms) =
     ''{'' @ intersperse '','' (map (\<lambda>(k, v). quote k @ '':'' @ render v) ms) @ ''}''"

text \<open>
  The value that the written text denotes: the encoder's value with every string coerced to
  valid UTF-8. It is what reading the text of \<open>render v\<close> gives.
\<close>

fun denote :: "json \<Rightarrow> json" where
  "denote JNull = JNull"
| "denote (JBool b) = JBool b"
| "denote (JNum lit) = JNum lit"
| "denote (JStr s) = JStr (utf8_coerce s)"
| "denote (JArr vs) = JArr (map denote vs)"
| "denote (JObj ms) = JObj (map (\<lambda>(k, v). (utf8_coerce k, denote v)) ms)"

subsection \<open>The text of a document: reading\<close>

definition is_ws :: "char \<Rightarrow> bool" where
  "is_ws c = (c = CHR 0x20 \<or> c = CHR 0x09 \<or> c = CHR 0x0D \<or> c = CHR 0x0A)"

definition skip_ws :: "string \<Rightarrow> string" where
  "skip_ws s = dropWhile is_ws s"

definition is_digit :: "char \<Rightarrow> bool" where
  "is_digit c = byte_in c 0x30 0x39"

definition hex_val :: "char \<Rightarrow> nat option" where
  "hex_val c =
     (if byte_in c 0x30 0x39 then Some ((of_char c :: nat) - 0x30)
      else if byte_in c 0x61 0x66 then Some ((of_char c :: nat) - 0x57)
      else if byte_in c 0x41 0x46 then Some ((of_char c :: nat) - 0x37)
      else None)"

definition hex4 :: "char \<Rightarrow> char \<Rightarrow> char \<Rightarrow> char \<Rightarrow> nat option" where
  "hex4 a b c d =
     (case (hex_val a, hex_val b, hex_val c, hex_val d) of
        (Some w, Some x, Some y, Some z) \<Rightarrow> Some (w * 4096 + x * 256 + y * 16 + z)
      | _ \<Rightarrow> None)"

text \<open>\<^verbatim>\<open>utf8.EncodeRune\<close> for a rune that is no surrogate.\<close>

definition utf8_encode :: "nat \<Rightarrow> string" where
  "utf8_encode r =
     (if r < 0x80 then [char_of r]
      else if r < 0x800 then [char_of (0xC0 + r div 64), char_of (0x80 + r mod 64)]
      else if r < 0x10000 then
        [char_of (0xE0 + r div 4096), char_of (0x80 + (r div 64) mod 64), char_of (0x80 + r mod 64)]
      else
        [char_of (0xF0 + r div 262144), char_of (0x80 + (r div 4096) mod 64),
         char_of (0x80 + (r div 64) mod 64), char_of (0x80 + r mod 64)])"

definition simple_escape :: "char \<Rightarrow> char option" where
  "simple_escape e =
     (if e = CHR 0x22 \<or> e = CHR 0x5C \<or> e = CHR ''/'' then Some e
      else if e = CHR ''b'' then Some (CHR 0x08)
      else if e = CHR ''f'' then Some (CHR 0x0C)
      else if e = CHR ''n'' then Some (CHR 0x0A)
      else if e = CHR ''r'' then Some (CHR 0x0D)
      else if e = CHR ''t'' then Some (CHR 0x09)
      else None)"

definition prepend :: "string \<Rightarrow> (string \<times> string) option \<Rightarrow> (string \<times> string) option" where
  "prepend p r = (case r of None \<Rightarrow> None | Some (s, rest) \<Rightarrow> Some (p @ s, rest))"

text \<open>
  The low half of a surrogate pair, written as a \<^verbatim>\<open>uXXXX\<close> escape at the head of the text.
\<close>

definition low_surrogate :: "string \<Rightarrow> nat option" where
  "low_surrogate s =
     (case s of
        b # u # g1 # g2 # g3 # g4 # _ \<Rightarrow>
          (if b = CHR 0x5C \<and> u = CHR ''u'' then
             (case hex4 g1 g2 g3 g4 of
                Some r \<Rightarrow> if 0xDC00 \<le> r \<and> r < 0xE000 then Some r else None
              | None \<Rightarrow> None)
           else None)
      | _ \<Rightarrow> None)"

text \<open>
  The text of a string literal after its opening quote: the bytes it denotes, escapes
  resolved, and the text after the closing quote. A control character, an unknown escape or
  the end of the text is a syntax error (\<^term>\<open>None\<close>). A surrogate that is not the high half of
  a pair becomes U+FFFD.
\<close>

fun scan_string :: "string \<Rightarrow> (string \<times> string) option" where
  "scan_string [] = None"
| "scan_string (c # cs) =
     (if c = CHR 0x22 then Some ([], cs)
      else if c = CHR 0x5C then
        (case cs of
           [] \<Rightarrow> None
         | e # cs1 \<Rightarrow>
             (if e = CHR ''u'' then
                (case cs1 of
                   h1 # h2 # h3 # h4 # cs2 \<Rightarrow>
                     (case hex4 h1 h2 h3 h4 of
                        None \<Rightarrow> None
                      | Some r \<Rightarrow>
                          (if 0xD800 \<le> r \<and> r < 0xE000 then
                             (case (if r < 0xDC00 then low_surrogate cs2 else None) of
                                Some r2 \<Rightarrow>
                                  (case cs2 of
                                     _ # _ # _ # _ # _ # _ # cs3 \<Rightarrow>
                                       prepend
                                         (utf8_encode ((r - 0xD800) * 0x400 + (r2 - 0xDC00) + 0x10000))
                                         (scan_string cs3)
                                   | _ \<Rightarrow> None)
                              | None \<Rightarrow> prepend replacement_char (scan_string cs2))
                           else prepend (utf8_encode r) (scan_string cs2)))
                 | _ \<Rightarrow> None)
              else
                (case simple_escape e of
                   None \<Rightarrow> None
                 | Some ch \<Rightarrow> prepend [ch] (scan_string cs1))))
      else if (of_char c :: nat) < 0x20 then None
      else prepend [c] (scan_string cs))"

text \<open>
  A string literal at the head of the text. Bytes that are not valid UTF-8 are replaced
  by U+FFFD; an escape never yields part of a sequence, so replacing after the escapes are
  resolved gives what the library's single pass gives.
\<close>

definition parse_string :: "string \<Rightarrow> (string \<times> string) option" where
  "parse_string s =
     (case s of
        [] \<Rightarrow> None
      | c # cs \<Rightarrow>
          (if c = CHR 0x22 then
             (case scan_string cs of None \<Rightarrow> None | Some (t, rest) \<Rightarrow> Some (utf8_coerce t, rest))
           else None))"

text \<open>A number: its literal and the text after it.\<close>

definition scan_digits :: "string \<Rightarrow> (string \<times> string) option" where
  "scan_digits s =
     (if takeWhile is_digit s = [] then None else Some (takeWhile is_digit s, dropWhile is_digit s))"

definition scan_int :: "string \<Rightarrow> (string \<times> string) option" where
  "scan_int s =
     (case s of
        [] \<Rightarrow> None
      | c # cs \<Rightarrow> if c = CHR ''0'' then Some ([c], cs) else scan_digits s)"

definition scan_frac :: "string \<Rightarrow> (string \<times> string) option" where
  "scan_frac s =
     (case s of
        [] \<Rightarrow> Some ([], s)
      | c # cs \<Rightarrow> if c = CHR ''.'' then prepend [c] (scan_digits cs) else Some ([], s))"

definition scan_exp :: "string \<Rightarrow> (string \<times> string) option" where
  "scan_exp s =
     (case s of
        [] \<Rightarrow> Some ([], s)
      | c # cs \<Rightarrow>
          (if c = CHR ''e'' \<or> c = CHR ''E'' then
             (case cs of
                [] \<Rightarrow> None
              | g # cs1 \<Rightarrow>
                  (if g = CHR ''+'' \<or> g = CHR ''-'' then prepend [c, g] (scan_digits cs1)
                   else prepend [c] (scan_digits cs)))
           else Some ([], s)))"

definition scan_number :: "string \<Rightarrow> (string \<times> string) option" where
  "scan_number s =
     (case s of
        [] \<Rightarrow> None
      | c # cs \<Rightarrow>
          (case (if c = CHR ''-'' then prepend [c] (scan_int cs) else scan_int s) of
             None \<Rightarrow> None
           | Some (i, r1) \<Rightarrow>
               (case scan_frac r1 of
                  None \<Rightarrow> None
                | Some (f, r2) \<Rightarrow> prepend (i @ f) (scan_exp r2))))"

definition scan_literal :: "string \<Rightarrow> json \<Rightarrow> string \<Rightarrow> (json \<times> string) option" where
  "scan_literal word v s =
     (if take (length word) s = word then Some (v, drop (length word) s) else None)"

text \<open>
  Values. The first argument bounds the number of nested calls (a loop of the library becomes
  a recursion here); \<open>parse_json\<close> starts with more than any text needs. The second is the
  number of arrays and objects around the value: the library refuses more than 10000.
\<close>

fun parse_value :: "nat \<Rightarrow> nat \<Rightarrow> string \<Rightarrow> (json \<times> string) option"
  and parse_elems :: "nat \<Rightarrow> nat \<Rightarrow> string \<Rightarrow> (json list \<times> string) option"
  and parse_members :: "nat \<Rightarrow> nat \<Rightarrow> string \<Rightarrow> ((string \<times> json) list \<times> string) option"
where
  "parse_value 0 d s = None"
| "parse_value (Suc n) d s =
     (case skip_ws s of
        [] \<Rightarrow> None
      | c # cs \<Rightarrow>
          (if c = CHR ''{'' then
             (if 10000 \<le> d then None
              else
                (case skip_ws cs of
                   [] \<Rightarrow> None
                 | c1 # cs1 \<Rightarrow>
                     (if c1 = CHR ''}'' then Some (JObj [], cs1)
                      else
                        (case parse_members n (Suc d) cs of
                           None \<Rightarrow> None
                         | Some (ms, rest) \<Rightarrow> Some (JObj ms, rest)))))
           else if c = CHR ''['' then
             (if 10000 \<le> d then None
              else
                (case skip_ws cs of
                   [] \<Rightarrow> None
                 | c1 # cs1 \<Rightarrow>
                     (if c1 = CHR '']'' then Some (JArr [], cs1)
                      else
                        (case parse_elems n (Suc d) cs of
                           None \<Rightarrow> None
                         | Some (vs, rest) \<Rightarrow> Some (JArr vs, rest)))))
           else if c = CHR 0x22 then
             (case parse_string (c # cs) of
                None \<Rightarrow> None
              | Some (t, rest) \<Rightarrow> Some (JStr t, rest))
           else if c = CHR ''t'' then scan_literal ''true'' (JBool True) (c # cs)
           else if c = CHR ''f'' then scan_literal ''false'' (JBool False) (c # cs)
           else if c = CHR ''n'' then scan_literal ''null'' JNull (c # cs)
           else
             (case scan_number (c # cs) of
                None \<Rightarrow> None
              | Some (lit, rest) \<Rightarrow> Some (JNum lit, rest))))"
| "parse_elems 0 d s = None"
| "parse_elems (Suc n) d s =
     (case parse_value n d s of
        None \<Rightarrow> None
      | Some (v, rest) \<Rightarrow>
          (case skip_ws rest of
             [] \<Rightarrow> None
           | c # cs \<Rightarrow>
               (if c = CHR '']'' then Some ([v], cs)
                else if c = CHR '','' then
                  (case parse_elems n d cs of
                     None \<Rightarrow> None
                   | Some (vs, rest') \<Rightarrow> Some (v # vs, rest'))
                else None)))"
| "parse_members 0 d s = None"
| "parse_members (Suc n) d s =
     (case parse_string (skip_ws s) of
        None \<Rightarrow> None
      | Some (k, r1) \<Rightarrow>
          (case skip_ws r1 of
             [] \<Rightarrow> None
           | c # cs \<Rightarrow>
               (if c = CHR '':'' then
                  (case parse_value n d cs of
                     None \<Rightarrow> None
                   | Some (v, r2) \<Rightarrow>
                       (case skip_ws r2 of
                          [] \<Rightarrow> None
                        | c2 # cs2 \<Rightarrow>
                            (if c2 = CHR ''}'' then Some ([(k, v)], cs2)
                             else if c2 = CHR '','' then
                               (case parse_members n d cs2 of
                                  None \<Rightarrow> None
                                | Some (ms, rest') \<Rightarrow> Some ((k, v) # ms, rest'))
                             else None)))
                else None)))"

text \<open>
  The whole text is one value between optional white space; anything else is a
  \<^verbatim>\<open>SyntaxError\<close>, found before anything is stored.
\<close>

definition parse_json :: "string \<Rightarrow> go_error + json" where
  "parse_json s =
     (case parse_value (2 * length s + 2) 0 s of
        None \<Rightarrow> Inl SyntaxError
      | Some (v, rest) \<Rightarrow> if skip_ws rest = [] then Inr v else Inl SyntaxError)"

text \<open>
  \<^verbatim>\<open>json.Unmarshal(data, &x)\<close> with the decoder of the type of \<^verbatim>\<open>x\<close>; nil data is empty text.
\<close>

definition json_Unmarshal :: "'a decoder \<Rightarrow> byte_slice \<Rightarrow> 'a \<Rightarrow> go_error + 'a" where
  "json_Unmarshal dec data x =
     (case parse_json (case data of None \<Rightarrow> [] | Some s \<Rightarrow> s) of
        Inl e \<Rightarrow> Inl e
      | Inr v \<Rightarrow> dec v x)"

subsection \<open>Values whose text can be read back\<close>

text \<open>
  The writer puts a number literal into the text as it is, and the reader refuses more than
  10000 nested arrays and objects. \<open>json_ok v\<close> says that the text of \<open>v\<close> is one the reader
  accepts: every number literal is a JSON number, and the nesting stays within the limit
  (\<open>fits d v\<close> for a value under \<open>d\<close> arrays and objects). The values that the encoders of
  this package build from structs declared here always are; the condition bears on the
  parts that are parameters.
\<close>

definition number_ok :: "string \<Rightarrow> bool" where
  "number_ok lit \<longleftrightarrow> scan_number lit = Some (lit, [])"

fun fits :: "nat \<Rightarrow> json \<Rightarrow> bool" where
  "fits d JNull = True"
| "fits d (JBool b) = True"
| "fits d (JNum lit) = number_ok lit"
| "fits d (JStr s) = True"
| "fits d (JArr vs) = (d < 10000 \<and> list_all (fits (Suc d)) vs)"
| "fits d (JObj ms) = (d < 10000 \<and> list_all (fits (Suc d)) (map snd ms))"

definition json_ok :: "json \<Rightarrow> bool" where
  "json_ok v = fits 0 v"

text \<open>
  A bound on the nested calls that reading the text of a value takes, and the condition on
  the text after a value: it ends, or goes on with a comma or a closing bracket.
\<close>

fun need :: "json \<Rightarrow> nat" where
  "need JNull = 1"
| "need (JBool b) = 1"
| "need (JNum lit) = 1"
| "need (JStr s) = 1"
| "need (JArr vs) = Suc (sum_list (map (\<lambda>v. Suc (need v)) vs))"
| "need (JObj ms) = Suc (sum_list (map (\<lambda>v. Suc (need v)) (map snd ms)))"

definition stop :: "string \<Rightarrow> bool" where
  "stop rest =
     (case rest of [] \<Rightarrow> True | c # _ \<Rightarrow> c = CHR '','' \<or> c = CHR '']'' \<or> c = CHR ''}'')"

text \<open>A scanner's result with more text after what it has read.\<close>

definition ext :: "string \<Rightarrow> (string \<times> string) option \<Rightarrow> (string \<times> string) option" where
  "ext rest r = (case r of None \<Rightarrow> None | Some (l, t) \<Rightarrow> Some (l, t @ rest))"

text \<open>
  The first character of the text of a value is no white space and closes nothing; and the
  property proved of every value below: its text, followed by anything that may follow a
  value, reads back as the value it denotes, with as many nested calls as \<open>need\<close> says.
\<close>

definition opens :: "char \<Rightarrow> bool" where
  "opens c \<longleftrightarrow> \<not> is_ws c \<and> c \<noteq> CHR '']'' \<and> c \<noteq> CHR ''}''"

definition reads_back :: "json \<Rightarrow> bool" where
  "reads_back v \<longleftrightarrow>
     (\<forall>n d rest. need v \<le> n \<longrightarrow> fits d v \<longrightarrow> stop rest \<longrightarrow>
        parse_value n d (render v @ rest) = Some (denote v, rest))"

section \<open>The two-level result\<close>

text \<open>\<^verbatim>\<open>queryResultImpl\<close> / \<^verbatim>\<open>QueryResult\<close> (lines 12-17).\<close>

record QueryResult =
  Ok :: byte_slice
  Err :: string

definition QueryResult_zero :: QueryResult where
  "QueryResult_zero = \<lparr>Ok = None, Err = []\<rparr>"

text \<open>
  \<^verbatim>\<open>json.Marshal(queryResultImpl(q))\<close>: the struct with its tags \<^verbatim>\<open>ok,omitempty\<close> and
  \<^verbatim>\<open>error,omitempty\<close>, as a JSON value.
\<close>

definition queryResultImpl_json :: "QueryResult \<Rightarrow> json" where
  "queryResultImpl_json q =
     JObj (member_omitempty (len_slice (Ok q) = 0) ''ok'' (enc_bytes (Ok q))
           @ member_omitempty (length (Err q) = 0) ''error'' (enc_string (Err q)))"

text \<open>\<^verbatim>\<open>QueryResult.MarshalJSON\<close> (lines 21-28): the bytes it returns.\<close>

definition QueryResult_MarshalJSON :: "QueryResult \<Rightarrow> go_error + bytes" where
  "QueryResult_MarshalJSON q =
     (if len_slice (Ok q) = 0 \<and> length (Err q) = 0 then Inr ''{\"ok\":\"\"}''
      else Inr (render (queryResultImpl_json q)))"

text \<open>
  The JSON value of a \<^verbatim>\<open>QueryResult\<close>: the value that the text returned by \<^verbatim>\<open>MarshalJSON\<close>
  denotes. The library reads that text again when it embeds it in a larger document.
\<close>

definition QueryResult_json :: "QueryResult \<Rightarrow> json" where
  "QueryResult_json q =
     (if len_slice (Ok q) = 0 \<and> length (Err q) = 0 then JObj [(''ok'', JStr [])]
      else queryResultImpl_json q)"

text \<open>
  Decoding a \<^verbatim>\<open>QueryResult\<close>: the type has no \<^verbatim>\<open>UnmarshalJSON\<close>, the struct tags decide.
\<close>

definition QueryResult_store :: "string \<Rightarrow> QueryResult decoder" where
  "QueryResult_store key =
     (if names_field key ''ok'' then store_field dec_bytes Ok (\<lambda>f q. q\<lparr>Ok := f\<rparr>)
      else if names_field key ''error'' then store_field dec_string Err (\<lambda>f q. q\<lparr>Err := f\<rparr>)
      else (\<lambda>v q. Inr q))"

definition QueryResult_dec :: "QueryResult decoder" where
  "QueryResult_dec = dec_struct QueryResult_store"

text \<open>
  Modelled from the spec: the declaration of \<^verbatim>\<open>SystemError\<close> and of its kinds is not in
  \<^verbatim>\<open>queries.go\<close>. The spec lists the kinds \<^verbatim>\<open>InvalidRequest{error, request_bytes}\<close>,
  \<^verbatim>\<open>UnsupportedRequest{kind}\<close>, \<^verbatim>\<open>NoSuchContract{address}\<close> and \<^verbatim>\<open>Unknown{}\<close>;
  \<^verbatim>\<open>RustQuery\<close> builds the first through the pointer field \<^verbatim>\<open>InvalidRequest\<close> with the
  fields \<^verbatim>\<open>Err\<close> and \<^verbatim>\<open>Request\<close>.
\<close>

record InvalidRequest =
  ir_Err :: string
  ir_Request :: byte_slice

record SystemError =
  InvalidRequest :: "InvalidRequest option"
  UnsupportedRequest :: "string option"
  NoSuchContract :: "string option"
  Unknown :: "unit option"

definition SystemError_zero :: SystemError where
  "SystemError_zero =
     \<lparr>InvalidRequest = None, UnsupportedRequest = None, NoSuchContract = None, Unknown = None\<rparr>"

text \<open>\<^verbatim>\<open>QuerierResult\<close> (lines 75-78): two pointer fields.\<close>

record QuerierResult =
  qr_Ok :: "QueryResult option"
  qr_Err :: "SystemError option"

text \<open>
  The encoding of a \<^verbatim>\<open>QuerierResult\<close>, by its tags \<^verbatim>\<open>ok,omitempty\<close> and
  \<^verbatim>\<open>error,omitempty\<close>. The encoding of a \<^verbatim>\<open>SystemError\<close> is declared with the type, in another
  file: it is a parameter.
\<close>

definition QuerierResult_json :: "(SystemError \<Rightarrow> json) \<Rightarrow> QuerierResult \<Rightarrow> json" where
  "QuerierResult_json SystemError_json r =
     JObj (member_omitempty (qr_Ok r = None) ''ok'' (enc_ptr QueryResult_json (qr_Ok r))
           @ member_omitempty (qr_Err r = None) ''error'' (enc_ptr SystemError_json (qr_Err r)))"

section \<open>\<^verbatim>\<open>RawRangeEntry\<close> (lines 408-430)\<close>

record RawRangeEntry =
  Key :: byte_slice
  Value :: byte_slice

definition RawRangeEntry_zero :: RawRangeEntry where
  "RawRangeEntry_zero = \<lparr>Key = None, Value = None\<rparr>"

text \<open>A non-nil \<^verbatim>\<open>[][]byte\<close> as a JSON value, and its decoder.\<close>

definition enc_byte_slices :: "byte_slice list \<Rightarrow> json" where
  "enc_byte_slices arr = JArr (map enc_bytes arr)"

definition dec_byte_slices :: "(byte_slice list option) decoder" where
  "dec_byte_slices = dec_slice None dec_bytes"

text \<open>\<^verbatim>\<open>MarshalJSON\<close> (lines 413-416): \<^verbatim>\<open>json.Marshal([][]byte{r.Key, r.Value})\<close>.\<close>

definition RawRangeEntry_json :: "RawRangeEntry \<Rightarrow> json" where
  "RawRangeEntry_json r = enc_byte_slices [Key r, Value r]"

definition RawRangeEntry_MarshalJSON :: "RawRangeEntry \<Rightarrow> go_error + bytes" where
  "RawRangeEntry_MarshalJSON r = Inr (render (RawRangeEntry_json r))"

text \<open>
  \<^verbatim>\<open>UnmarshalJSON\<close> (lines 418-430). \<open>RawRangeEntry_dec\<close> is the part after the text has been
  read: the value is decoded into a new \<^verbatim>\<open>[][]byte\<close>, whose length must be 2.
\<close>

definition RawRangeEntry_dec :: "RawRangeEntry decoder" where
  "RawRangeEntry_dec v r =
     (case dec_byte_slices v None of
        Inl err \<Rightarrow> Inl err
      | Inr arr \<Rightarrow>
          (case arr of
             Some [k, w] \<Rightarrow> Inr (r\<lparr>Key := k, Value := w\<rparr>)
           | Some xs \<Rightarrow>
               Inl (Errorf (''invalid RawRange entry: expected array of length 2, got ''
                            @ decimal (length xs)))
           | None \<Rightarrow>
               Inl (Errorf (''invalid RawRange entry: expected array of length 2, got ''
                            @ decimal 0))))"

definition RawRangeEntry_UnmarshalJSON :: "byte_slice \<Rightarrow> RawRangeEntry \<Rightarrow> go_error + RawRangeEntry" where
  "RawRangeEntry_UnmarshalJSON data r = json_Unmarshal RawRangeEntry_dec data r"

section \<open>The request taxonomy\<close>

text \<open>
  Every struct of the taxonomy is a record with the fields in the order of the source, its
  zero value, its encoding (one member per field, by the field's tag) and its decoder (the
  member name selects the field). A union is a struct of pointer fields tagged
  \<^verbatim>\<open>omitempty\<close>. A struct without fields is \<^typ>\<open>unit\<close>.
\<close>

text \<open>
  The declaration of \<^verbatim>\<open>PageRequest\<close> is in another file of the package: its zero value, its
  encoding and its decoder are parameters, collected in a record.
\<close>

record 'p PageRequest_codec =
  pr_zero :: "'p"
  pr_json :: "'p \<Rightarrow> json"
  pr_dec :: "'p decoder"

text \<open>
  A \<^verbatim>\<open>json.RawMessage\<close> holds the text of one JSON value and is modelled by that value; nil,
  and the empty message, which \<^verbatim>\<open>omitempty\<close> leaves out as well, are \<^term>\<open>None\<close>. (A message
  that is not the text of a value makes \<^verbatim>\<open>json.Marshal\<close> fail; the type excludes it. The
  layout of the text, which decoding keeps and encoding compacts, is not modelled.) Decoding
  stores whatever value the member has, \<^verbatim>\<open>null\<close> included.
\<close>

definition enc_raw :: "json option \<Rightarrow> json" where
  "enc_raw m = (case m of None \<Rightarrow> JNull | Some v \<Rightarrow> v)"

definition dec_raw :: "(json option) decoder" where
  "dec_raw v old = Inr (Some v)"

text \<open>\<^verbatim>\<open>SupplyQuery\<close> (lines 122-124).\<close>

record SupplyQuery =
  SupplyQuery_Denom :: "string"

definition SupplyQuery_zero :: "SupplyQuery" where
  "SupplyQuery_zero =
     \<lparr>SupplyQuery_Denom = []\<rparr>"

definition SupplyQuery_json :: "SupplyQuery \<Rightarrow> json" where
  "SupplyQuery_json x =
     JObj (member ''denom'' (enc_string (SupplyQuery_Denom x)))"

definition SupplyQuery_store :: "string \<Rightarrow> SupplyQuery decoder" where
  "SupplyQuery_store key =
     (if names_field key ''denom'' then
        store_field dec_string SupplyQuery_Denom
          (\<lambda>f x. x\<lparr>SupplyQuery_Denom := f\<rparr>)
      else (\<lambda>v x. Inr x))"

definition SupplyQuery_dec :: "SupplyQuery decoder" where
  "SupplyQuery_dec = dec_struct SupplyQuery_store"

text \<open>\<^verbatim>\<open>BalanceQuery\<close> (lines 131-134).\<close>

record BalanceQuery =
  BalanceQuery_Address :: "string"
  BalanceQuery_Denom :: "string"

definition BalanceQuery_zero :: "BalanceQuery" where
  "BalanceQuery_zero =
     \<lparr>BalanceQuery_Address = [], BalanceQuery_Denom = []\<rparr>"

definition BalanceQuery_json :: "BalanceQuery \<Rightarrow> json" where
  "BalanceQuery_json x =
     JObj (member ''address'' (enc_string (BalanceQuery_Address x))
           @ member ''denom'' (enc_string (BalanceQuery_Denom x)))"

definition BalanceQuery_store :: "string \<Rightarrow> BalanceQuery decoder" where
  "BalanceQuery_store key =
     (if names_field key ''address'' then
        store_field dec_string BalanceQuery_Address
          (\<lambda>f x. x\<lparr>BalanceQuery_Address := f\<rparr>)
      else if names_field key ''denom'' then
        store_field dec_string BalanceQuery_Denom
          (\<lambda>f x. x\<lparr>BalanceQuery_Denom := f\<rparr>)
      else (\<lambda>v x. Inr x))"

definition BalanceQuery_dec :: "BalanceQuery decoder" where
  "BalanceQuery_dec = dec_struct BalanceQuery_store"

text \<open>\<^verbatim>\<open>AllBalancesQuery\<close> (lines 141-143).\<close>

record AllBalancesQuery =
  AllBalancesQuery_Address :: "string"

definition AllBalancesQuery_zero :: "AllBalancesQuery" where
  "AllBalancesQuery_zero =
     \<lparr>AllBalancesQuery_Address = []\<rparr>"

definition AllBalancesQuery_json :: "AllBalancesQuery \<Rightarrow> json" where
  "AllBalancesQuery_json x =
     JObj (member ''address'' (enc_string (AllBalancesQuery_Address x)))"

definition AllBalancesQuery_store :: "string \<Rightarrow> AllBalancesQuery decoder" where
  "AllBalancesQuery_store key =
     (if names_field key ''address'' then
        store_field dec_string AllBalancesQuery_Address
          (\<lambda>f x. x\<lparr>AllBalancesQuery_Address := f\<rparr>)
      else (\<lambda>v x. Inr x))"

definition AllBalancesQuery_dec :: "AllBalancesQuery decoder" where
  "AllBalancesQuery_dec = dec_struct AllBalancesQuery_store"

text \<open>\<^verbatim>\<open>DenomMetadataQuery\<close> (lines 150-152).\<close>

record DenomMetadataQuery =
  DenomMetadataQuery_Denom :: "string"

definition DenomMetadataQuery_zero :: "DenomMetadataQuery" where
  "DenomMetadataQuery_zero =
     \<lparr>DenomMetadataQuery_Denom = []\<rparr>"

definition DenomMetadataQuery_json :: "DenomMetadataQuery \<Rightarrow> json" where
  "DenomMetadataQuery_json x =
     JObj (member ''denom'' (enc_string (DenomMetadataQuery_Denom x)))"

definition DenomMetadataQuery_store :: "string \<Rightarrow> DenomMetadataQuery decoder" where
  "DenomMetadataQuery_store key =
     (if names_field key ''denom'' then
        store_field dec_string DenomMetadataQuery_Denom
          (\<lambda>f x. x\<lparr>DenomMetadataQuery_Denom := f\<rparr>)
      else (\<lambda>v x. Inr x))"

definition DenomMetadataQuery_dec :: "DenomMetadataQuery decoder" where
  "DenomMetadataQuery_dec = dec_struct DenomMetadataQuery_store"

text \<open>\<^verbatim>\<open>AllDenomMetadataQuery\<close> (lines 158-162).\<close>

record 'p AllDenomMetadataQuery =
  AllDenomMetadataQuery_Pagination :: "'p option"

definition AllDenomMetadataQuery_zero :: "'p AllDenomMetadataQuery" where
  "AllDenomMetadataQuery_zero =
     \<lparr>AllDenomMetadataQuery_Pagination = None\<rparr>"

definition AllDenomMetadataQuery_json ::
  "'p PageRequest_codec \<Rightarrow> 'p AllDenomMetadataQuery \<Rightarrow> json" where
  "AllDenomMetadataQuery_json pc x =
     JObj (member_omitempty (AllDenomMetadataQuery_Pagination x = None) ''pagination''
               ((enc_ptr (pr_json pc)) (AllDenomMetadataQuery_Pagination x)))"

definition AllDenomMetadataQuery_store ::
  "'p PageRequest_codec \<Rightarrow> string \<Rightarrow> 'p AllDenomMetadataQuery decoder" where
  "AllDenomMetadataQuery_store pc key =
     (if names_field key ''pagination'' then
        store_field (dec_ptr (pr_zero pc) (pr_dec pc)) AllDenomMetadataQuery_Pagination
          (\<lambda>f x. x\<lparr>AllDenomMetadataQuery_Pagination := f\<rparr>)
      else (\<lambda>v x. Inr x))"

definition AllDenomMetadataQuery_dec ::
  "'p PageRequest_codec \<Rightarrow> 'p AllDenomMetadataQuery decoder" where
  "AllDenomMetadataQuery_dec pc = dec_struct (AllDenomMetadataQuery_store pc)"

text \<open>\<^verbatim>\<open>BankQuery\<close> (lines 114-120).\<close>

record 'p BankQuery =
  BankQuery_Supply :: "SupplyQuery option"
  BankQuery_Balance :: "BalanceQuery option"
  BankQuery_AllBalances :: "AllBalancesQuery option"
  BankQuery_DenomMetadata :: "DenomMetadataQuery option"
  BankQuery_AllDenomMetadata :: "'p AllDenomMetadataQuery option"

definition BankQuery_zero :: "'p BankQuery" where
  "BankQuery_zero =
     \<lparr>BankQuery_Supply = None,
      BankQuery_Balance = None,
      BankQuery_AllBalances = None,
      BankQuery_DenomMetadata = None,
      BankQuery_AllDenomMetadata = None\<rparr>"

definition BankQuery_json ::
  "'p PageRequest_codec \<Rightarrow> 'p BankQuery \<Rightarrow> json" where
  "BankQuery_json pc x =
     JObj (member_omitempty (BankQuery_Supply x = None) ''supply''
               ((enc_ptr SupplyQuery_json) (BankQuery_Supply x))
           @ member_omitempty (BankQuery_Balance x = None) ''balance''
               ((enc_ptr BalanceQuery_json) (BankQuery_Balance x))
           @ member_omitempty (BankQuery_AllBalances x = None) ''all_balances''
               ((enc_ptr AllBalancesQuery_json) (BankQuery_AllBalances x))
           @ member_omitempty (BankQuery_DenomMetadata x = None) ''denom_metadata''
               ((enc_ptr DenomMetadataQuery_json) (BankQuery_DenomMetadata x))
           @ member_omitempty (BankQuery_AllDenomMetadata x = None) ''all_denom_metadata''
               ((enc_ptr (AllDenomMetadataQuery_json pc)) (BankQuery_AllDenomMetadata x)))"

definition BankQuery_store ::
  "'p PageRequest_codec \<Rightarrow> string \<Rightarrow> 'p BankQuery decoder" where
  "BankQuery_store pc key =
     (if names_field key ''supply'' then
        store_field (dec_ptr SupplyQuery_zero SupplyQuery_dec) BankQuery_Supply
          (\<lambda>f x. x\<lparr>BankQuery_Supply := f\<rparr>)
      else if names_field key ''balance'' then
        store_field (dec_ptr BalanceQuery_zero BalanceQuery_dec) BankQuery_Balance
          (\<lambda>f x. x\<lparr>BankQuery_Balance := f\<rparr>)
      else if names_field key ''all_balances'' then
        store_field (dec_ptr AllBalancesQuery_zero AllBalancesQuery_dec) BankQuery_AllBalances
          (\<lambda>f x. x\<lparr>BankQuery_AllBalances := f\<rparr>)
      else if names_field key ''denom_metadata'' then
        store_field (dec_ptr DenomMetadataQuery_zero DenomMetadataQuery_dec) BankQuery_DenomMetadata
          (\<lambda>f x. x\<lparr>BankQuery_DenomMetadata := f\<rparr>)
      else if names_field key ''all_denom_metadata'' then
        store_field (dec_ptr AllDenomMetadataQuery_zero (AllDenomMetadataQuery_dec pc))
          BankQuery_AllDenomMetadata
          (\<lambda>f x. x\<lparr>BankQuery_AllDenomMetadata := f\<rparr>)
      else (\<lambda>v x. Inr x))"

definition BankQuery_dec :: "'p PageRequest_codec \<Rightarrow> 'p BankQuery decoder" where
  "BankQuery_dec pc = dec_struct (BankQuery_store pc)"

text \<open>\<^verbatim>\<open>PortIDQuery\<close> (line 180).\<close>

type_synonym PortIDQuery = unit

definition PortIDQuery_zero :: PortIDQuery where
  "PortIDQuery_zero = ()"

definition PortIDQuery_json :: "PortIDQuery \<Rightarrow> json" where
  "PortIDQuery_json x = JObj []"

definition PortIDQuery_store :: "string \<Rightarrow> PortIDQuery decoder" where
  "PortIDQuery_store key = (\<lambda>v x. Inr x)"

definition PortIDQuery_dec :: "PortIDQuery decoder" where
  "PortIDQuery_dec = dec_struct PortIDQuery_store"

text \<open>\<^verbatim>\<open>ListChannelsQuery\<close> (lines 190-193).\<close>

record ListChannelsQuery =
  ListChannelsQuery_PortID :: "string"

definition ListChannelsQuery_zero :: "ListChannelsQuery" where
  "ListChannelsQuery_zero =
     \<lparr>ListChannelsQuery_PortID = []\<rparr>"

definition ListChannelsQuery_json :: "ListChannelsQuery \<Rightarrow> json" where
  "ListChannelsQuery_json x =
     JObj (member_omitempty (length (ListChannelsQuery_PortID x) = 0) ''port_id''
               (enc_string (ListChannelsQuery_PortID x)))"

definition ListChannelsQuery_store :: "string \<Rightarrow> ListChannelsQuery decoder" where
  "ListChannelsQuery_store key =
     (if names_field key ''port_id'' then
        store_field dec_string ListChannelsQuery_PortID
          (\<lambda>f x. x\<lparr>ListChannelsQuery_PortID := f\<rparr>)
      else (\<lambda>v x. Inr x))"

definition ListChannelsQuery_dec :: "ListChannelsQuery decoder" where
  "ListChannelsQuery_dec = dec_struct ListChannelsQuery_store"

text \<open>\<^verbatim>\<open>ChannelQuery\<close> (lines 199-203).\<close>

record ChannelQuery =
  ChannelQuery_PortID :: "string"
  ChannelQuery_ChannelID :: "string"

definition ChannelQuery_zero :: "ChannelQuery" where
  "ChannelQuery_zero =
     \<lparr>ChannelQuery_PortID = [], ChannelQuery_ChannelID = []\<rparr>"

definition ChannelQuery_json :: "ChannelQuery \<Rightarrow> json" where
  "ChannelQuery_json x =
     JObj (member_omitempty (length (ChannelQuery_PortID x) = 0) ''port_id''
               (enc_string (ChannelQuery_PortID x))
           @ member ''channel_id'' (enc_string (ChannelQuery_ChannelID x)))"

definition ChannelQuery_store :: "string \<Rightarrow> ChannelQuery decoder" where
  "ChannelQuery_store key =
     (if names_field key ''port_id'' then
        store_field dec_string ChannelQuery_PortID
          (\<lambda>f x. x\<lparr>ChannelQuery_PortID := f\<rparr>)
      else if names_field key ''channel_id'' then
        store_field dec_string ChannelQuery_ChannelID
          (\<lambda>f x. x\<lparr>ChannelQuery_ChannelID := f\<rparr>)
      else (\<lambda>v x. Inr x))"

definition ChannelQuery_dec :: "ChannelQuery decoder" where
  "ChannelQuery_dec = dec_struct ChannelQuery_store"

text \<open>\<^verbatim>\<open>IBCQuery\<close> (lines 174-178).\<close>

record IBCQuery =
  IBCQuery_PortID :: "PortIDQuery option"
  IBCQuery_ListChannels :: "ListChannelsQuery option"
  IBCQuery_Channel :: "ChannelQuery option"

definition IBCQuery_zero :: "IBCQuery" where
  "IBCQuery_zero =
     \<lparr>IBCQuery_PortID = None,
      IBCQuery_ListChannels = None,
      IBCQuery_Channel = None\<rparr>"

definition IBCQuery_json :: "IBCQuery \<Rightarrow> json" where
  "IBCQuery_json x =
     JObj (member_omitempty (IBCQuery_PortID x = None) ''port_id''
               ((enc_ptr PortIDQuery_json) (IBCQuery_PortID x))
           @ member_omitempty (IBCQuery_ListChannels x = None) ''list_channels''
               ((enc_ptr ListChannelsQuery_json) (IBCQuery_ListChannels x))
           @ member_omitempty (IBCQuery_Channel x = None) ''channel''
               ((enc_ptr ChannelQuery_json) (IBCQuery_Channel x)))"

definition IBCQuery_store :: "string \<Rightarrow> IBCQuery decoder" where
  "IBCQuery_store key =
     (if names_field key ''port_id'' then
        store_field (dec_ptr PortIDQuery_zero PortIDQuery_dec) IBCQuery_PortID
          (\<lambda>f x. x\<lparr>IBCQuery_PortID := f\<rparr>)
      else if names_field key ''list_channels'' then
        store_field (dec_ptr ListChannelsQuery_zero ListChannelsQuery_dec) IBCQuery_ListChannels
          (\<lambda>f x. x\<lparr>IBCQuery_ListChannels := f\<rparr>)
      else if names_field key ''channel'' then
        store_field (dec_ptr ChannelQuery_zero ChannelQuery_dec) IBCQuery_Channel
          (\<lambda>f x. x\<lparr>IBCQuery_Channel := f\<rparr>)
      else (\<lambda>v x. Inr x))"

definition IBCQuery_dec :: "IBCQuery decoder" where
  "IBCQuery_dec = dec_struct IBCQuery_store"

text \<open>\<^verbatim>\<open>AllValidatorsQuery\<close> (line 218).\<close>

type_synonym AllValidatorsQuery = unit

definition AllValidatorsQuery_zero :: AllValidatorsQuery where
  "AllValidatorsQuery_zero = ()"

definition AllValidatorsQuery_json :: "AllValidatorsQuery \<Rightarrow> json" where
  "AllValidatorsQuery_json x = JObj []"

definition AllValidatorsQuery_store :: "string \<Rightarrow> AllValidatorsQuery decoder" where
  "AllValidatorsQuery_store key = (\<lambda>v x. Inr x)"

definition AllValidatorsQuery_dec :: "AllValidatorsQuery decoder" where
  "AllValidatorsQuery_dec = dec_struct AllValidatorsQuery_store"

text \<open>\<^verbatim>\<open>ValidatorQuery\<close> (lines 225-228).\<close>

record ValidatorQuery =
  ValidatorQuery_Address :: "string"

definition ValidatorQuery_zero :: "ValidatorQuery" where
  "ValidatorQuery_zero =
     \<lparr>ValidatorQuery_Address = []\<rparr>"

definition ValidatorQuery_json :: "ValidatorQuery \<Rightarrow> json" where
  "ValidatorQuery_json x =
     JObj (member ''address'' (enc_string (ValidatorQuery_Address x)))"

definition ValidatorQuery_store :: "string \<Rightarrow> ValidatorQuery decoder" where
  "ValidatorQuery_store key =
     (if names_field key ''address'' then
        store_field dec_string ValidatorQuery_Address
          (\<lambda>f x. x\<lparr>ValidatorQuery_Address := f\<rparr>)
      else (\<lambda>v x. Inr x))"

definition ValidatorQuery_dec :: "ValidatorQuery decoder" where
  "ValidatorQuery_dec = dec_struct ValidatorQuery_store"

text \<open>\<^verbatim>\<open>AllDelegationsQuery\<close> (lines 245-247).\<close>

record AllDelegationsQuery =
  AllDelegationsQuery_Delegator :: "string"

definition AllDelegationsQuery_zero :: "AllDelegationsQuery" where
  "AllDelegationsQuery_zero =
     \<lparr>AllDelegationsQuery_Delegator = []\<rparr>"

definition AllDelegationsQuery_json :: "AllDelegationsQuery \<Rightarrow> json" where
  "AllDelegationsQuery_json x =
     JObj (member ''delegator'' (enc_string (AllDelegationsQuery_Delegator x)))"

definition AllDelegationsQuery_store :: "string \<Rightarrow> AllDelegationsQuery decoder" where
  "AllDelegationsQuery_store key =
     (if names_field key ''delegator'' then
        store_field dec_string AllDelegationsQuery_Delegator
          (\<lambda>f x. x\<lparr>AllDelegationsQuery_Delegator := f\<rparr>)
      else (\<lambda>v x. Inr x))"

definition AllDelegationsQuery_dec :: "AllDelegationsQuery decoder" where
  "AllDelegationsQuery_dec = dec_struct AllDelegationsQuery_store"

text \<open>\<^verbatim>\<open>DelegationQuery\<close> (lines 249-252).\<close>

record DelegationQuery =
  DelegationQuery_Delegator :: "string"
  DelegationQuery_Validator :: "string"

definition DelegationQuery_zero :: "DelegationQuery" where
  "DelegationQuery_zero =
     \<lparr>DelegationQuery_Delegator = [], DelegationQuery_Validator = []\<rparr>"

definition DelegationQuery_json :: "DelegationQuery \<Rightarrow> json" where
  "DelegationQuery_json x =
     JObj (member ''delegator'' (enc_string (DelegationQuery_Delegator x))
           @ member ''validator'' (enc_string (DelegationQuery_Validator x)))"

definition DelegationQuery_store :: "string \<Rightarrow> DelegationQuery decoder" where
  "DelegationQuery_store key =
     (if names_field key ''delegator'' then
        store_field dec_string DelegationQuery_Delegator
          (\<lambda>f x. x\<lparr>DelegationQuery_Delegator := f\<rparr>)
      else if names_field key ''validator'' then
        store_field dec_string DelegationQuery_Validator
          (\<lambda>f x. x\<lparr>DelegationQuery_Validator := f\<rparr>)
      else (\<lambda>v x. Inr x))"

definition DelegationQuery_dec :: "DelegationQuery decoder" where
  "DelegationQuery_dec = dec_struct DelegationQuery_store"

text \<open>The anonymous \<^verbatim>\<open>struct{}\<close> of the field \<^verbatim>\<open>BondedDenom\<close> (line 215).\<close>

type_synonym BondedDenomQuery = unit

definition BondedDenomQuery_zero :: BondedDenomQuery where
  "BondedDenomQuery_zero = ()"

definition BondedDenomQuery_json :: "BondedDenomQuery \<Rightarrow> json" where
  "BondedDenomQuery_json x = JObj []"

definition BondedDenomQuery_store :: "string \<Rightarrow> BondedDenomQuery decoder" where
  "BondedDenomQuery_store key = (\<lambda>v x. Inr x)"

definition BondedDenomQuery_dec :: "BondedDenomQuery decoder" where
  "BondedDenomQuery_dec = dec_struct BondedDenomQuery_store"

text \<open>\<^verbatim>\<open>StakingQuery\<close> (lines 210-216).\<close>

record StakingQuery =
  StakingQuery_AllValidators :: "AllValidatorsQuery option"
  StakingQuery_Validator :: "ValidatorQuery option"
  StakingQuery_AllDelegations :: "AllDelegationsQuery option"
  StakingQuery_Delegation :: "DelegationQuery option"
  StakingQuery_BondedDenom :: "BondedDenomQuery option"

definition StakingQuery_zero :: "StakingQuery" where
  "StakingQuery_zero =
     \<lparr>StakingQuery_AllValidators = None,
      StakingQuery_Validator = None,
      StakingQuery_AllDelegations = None,
      StakingQuery_Delegation = None,
      StakingQuery_BondedDenom = None\<rparr>"

definition StakingQuery_json :: "StakingQuery \<Rightarrow> json" where
  "StakingQuery_json x =
     JObj (member_omitempty (StakingQuery_AllValidators x = None) ''all_validators''
               ((enc_ptr AllValidatorsQuery_json) (StakingQuery_AllValidators x))
           @ member_omitempty (StakingQuery_Validator x = None) ''validator''
               ((enc_ptr ValidatorQuery_json) (StakingQuery_Validator x))
           @ member_omitempty (StakingQuery_AllDelegations x = None) ''all_delegations''
               ((enc_ptr AllDelegationsQuery_json) (StakingQuery_AllDelegations x))
           @ member_omitempty (StakingQuery_Delegation x = None) ''delegation''
               ((enc_ptr DelegationQuery_json) (StakingQuery_Delegation x))
           @ member_omitempty (StakingQuery_BondedDenom x = None) ''bonded_denom''
               ((enc_ptr BondedDenomQuery_json) (StakingQuery_BondedDenom x)))"

definition StakingQuery_store :: "string \<Rightarrow> StakingQuery decoder" where
  "StakingQuery_store key =
     (if names_field key ''all_validators'' then
        store_field (dec_ptr AllValidatorsQuery_zero AllValidatorsQuery_dec)
          StakingQuery_AllValidators
          (\<lambda>f x. x\<lparr>StakingQuery_AllValidators := f\<rparr>)
      else if names_field key ''validator'' then
        store_field (dec_ptr ValidatorQuery_zero ValidatorQuery_dec) StakingQuery_Validator
          (\<lambda>f x. x\<lparr>StakingQuery_Validator := f\<rparr>)
      else if names_field key ''all_delegations'' then
        store_field (dec_ptr AllDelegationsQuery_zero AllDelegationsQuery_dec)
          StakingQuery_AllDelegations
          (\<lambda>f x. x\<lparr>StakingQuery_AllDelegations := f\<rparr>)
      else if names_field key ''delegation'' then
        store_field (dec_ptr DelegationQuery_zero DelegationQuery_dec) StakingQuery_Delegation
          (\<lambda>f x. x\<lparr>StakingQuery_Delegation := f\<rparr>)
      else if names_field key ''bonded_denom'' then
        store_field (dec_ptr BondedDenomQuery_zero BondedDenomQuery_dec) StakingQuery_BondedDenom
          (\<lambda>f x. x\<lparr>StakingQuery_BondedDenom := f\<rparr>)
      else (\<lambda>v x. Inr x))"

definition StakingQuery_dec :: "StakingQuery decoder" where
  "StakingQuery_dec = dec_struct StakingQuery_store"

text \<open>\<^verbatim>\<open>DelegatorWithdrawAddressQuery\<close> (lines 276-278).\<close>

record DelegatorWithdrawAddressQuery =
  DelegatorWithdrawAddressQuery_DelegatorAddress :: "string"

definition DelegatorWithdrawAddressQuery_zero :: "DelegatorWithdrawAddressQuery" where
  "DelegatorWithdrawAddressQuery_zero =
     \<lparr>DelegatorWithdrawAddressQuery_DelegatorAddress = []\<rparr>"

definition DelegatorWithdrawAddressQuery_json ::
  "DelegatorWithdrawAddressQuery \<Rightarrow> json" where
  "DelegatorWithdrawAddressQuery_json x =
     JObj (member ''delegator_address''
             (enc_string (DelegatorWithdrawAddressQuery_DelegatorAddress x)))"

definition DelegatorWithdrawAddressQuery_store ::
  "string \<Rightarrow> DelegatorWithdrawAddressQuery decoder" where
  "DelegatorWithdrawAddressQuery_store key =
     (if names_field key ''delegator_address'' then
        store_field dec_string DelegatorWithdrawAddressQuery_DelegatorAddress
          (\<lambda>f x. x\<lparr>DelegatorWithdrawAddressQuery_DelegatorAddress := f\<rparr>)
      else (\<lambda>v x. Inr x))"

definition DelegatorWithdrawAddressQuery_dec :: "DelegatorWithdrawAddressQuery decoder" where
  "DelegatorWithdrawAddressQuery_dec = dec_struct DelegatorWithdrawAddressQuery_store"

text \<open>\<^verbatim>\<open>DelegationRewardsQuery\<close> (lines 284-287).\<close>

record DelegationRewardsQuery =
  DelegationRewardsQuery_DelegatorAddress :: "string"
  DelegationRewardsQuery_ValidatorAddress :: "string"

definition DelegationRewardsQuery_zero :: "DelegationRewardsQuery" where
  "DelegationRewardsQuery_zero =
     \<lparr>DelegationRewardsQuery_DelegatorAddress = [], DelegationRewardsQuery_ValidatorAddress = []\<rparr>"

definition DelegationRewardsQuery_json :: "DelegationRewardsQuery \<Rightarrow> json" where
  "DelegationRewardsQuery_json x =
     JObj (member ''delegator_address'' (enc_string (DelegationRewardsQuery_DelegatorAddress x))
           @ member ''validator_address'' (enc_string (DelegationRewardsQuery_ValidatorAddress x)))"

definition DelegationRewardsQuery_store ::
  "string \<Rightarrow> DelegationRewardsQuery decoder" where
  "DelegationRewardsQuery_store key =
     (if names_field key ''delegator_address'' then
        store_field dec_string DelegationRewardsQuery_DelegatorAddress
          (\<lambda>f x. x\<lparr>DelegationRewardsQuery_DelegatorAddress := f\<rparr>)
      else if names_field key ''validator_address'' then
        store_field dec_string DelegationRewardsQuery_ValidatorAddress
          (\<lambda>f x. x\<lparr>DelegationRewardsQuery_ValidatorAddress := f\<rparr>)
      else (\<lambda>v x. Inr x))"

definition DelegationRewardsQuery_dec :: "DelegationRewardsQuery decoder" where
  "DelegationRewardsQuery_dec = dec_struct DelegationRewardsQuery_store"

text \<open>\<^verbatim>\<open>DelegationTotalRewardsQuery\<close> (lines 294-296).\<close>

record DelegationTotalRewardsQuery =
  DelegationTotalRewardsQuery_DelegatorAddress :: "string"

definition DelegationTotalRewardsQuery_zero :: "DelegationTotalRewardsQuery" where
  "DelegationTotalRewardsQuery_zero =
     \<lparr>DelegationTotalRewardsQuery_DelegatorAddress = []\<rparr>"

definition DelegationTotalRewardsQuery_json ::
  "DelegationTotalRewardsQuery \<Rightarrow> json" where
  "DelegationTotalRewardsQuery_json x =
     JObj (member ''delegator_address''
             (enc_string (DelegationTotalRewardsQuery_DelegatorAddress x)))"

definition DelegationTotalRewardsQuery_store ::
  "string \<Rightarrow> DelegationTotalRewardsQuery decoder" where
  "DelegationTotalRewardsQuery_store key =
     (if names_field key ''delegator_address'' then
        store_field dec_string DelegationTotalRewardsQuery_DelegatorAddress
          (\<lambda>f x. x\<lparr>DelegationTotalRewardsQuery_DelegatorAddress := f\<rparr>)
      else (\<lambda>v x. Inr x))"

definition DelegationTotalRewardsQuery_dec :: "DelegationTotalRewardsQuery decoder" where
  "DelegationTotalRewardsQuery_dec = dec_struct DelegationTotalRewardsQuery_store"

text \<open>\<^verbatim>\<open>DelegatorValidatorsQuery\<close> (lines 309-311).\<close>

record DelegatorValidatorsQuery =
  DelegatorValidatorsQuery_DelegatorAddress :: "string"

definition DelegatorValidatorsQuery_zero :: "DelegatorValidatorsQuery" where
  "DelegatorValidatorsQuery_zero =
     \<lparr>DelegatorValidatorsQuery_DelegatorAddress = []\<rparr>"

definition DelegatorValidatorsQuery_json :: "DelegatorValidatorsQuery \<Rightarrow> json" where
  "DelegatorValidatorsQuery_json x =
     JObj (member ''delegator_address'' (enc_string (DelegatorValidatorsQuery_DelegatorAddress x)))"

definition DelegatorValidatorsQuery_store ::
  "string \<Rightarrow> DelegatorValidatorsQuery decoder" where
  "DelegatorValidatorsQuery_store key =
     (if names_field key ''delegator_address'' then
        store_field dec_string DelegatorValidatorsQuery_DelegatorAddress
          (\<lambda>f x. x\<lparr>DelegatorValidatorsQuery_DelegatorAddress := f\<rparr>)
      else (\<lambda>v x. Inr x))"

definition DelegatorValidatorsQuery_dec :: "DelegatorValidatorsQuery decoder" where
  "DelegatorValidatorsQuery_dec = dec_struct DelegatorValidatorsQuery_store"

text \<open>\<^verbatim>\<open>DistributionQuery\<close> (lines 265-274).\<close>

record DistributionQuery =
  DistributionQuery_DelegatorWithdrawAddress :: "DelegatorWithdrawAddressQuery option"
  DistributionQuery_DelegationRewards :: "DelegationRewardsQuery option"
  DistributionQuery_DelegationTotalRewards :: "DelegationTotalRewardsQuery option"
  DistributionQuery_DelegatorValidators :: "DelegatorValidatorsQuery option"

definition DistributionQuery_zero :: "DistributionQuery" where
  "DistributionQuery_zero =
     \<lparr>DistributionQuery_DelegatorWithdrawAddress = None,
      DistributionQuery_DelegationRewards = None,
      DistributionQuery_DelegationTotalRewards = None,
      DistributionQuery_DelegatorValidators = None\<rparr>"

definition DistributionQuery_json :: "DistributionQuery \<Rightarrow> json" where
  "DistributionQuery_json x =
     JObj (member_omitempty
             (DistributionQuery_DelegatorWithdrawAddress x = None) ''delegator_withdraw_address''
               ((enc_ptr DelegatorWithdrawAddressQuery_json) (DistributionQuery_DelegatorWithdrawAddress x))
           @ member_omitempty (DistributionQuery_DelegationRewards x = None) ''delegation_rewards''
               ((enc_ptr DelegationRewardsQuery_json) (DistributionQuery_DelegationRewards x))
           @ member_omitempty
               (DistributionQuery_DelegationTotalRewards x = None) ''delegation_total_rewards''
               ((enc_ptr DelegationTotalRewardsQuery_json) (DistributionQuery_DelegationTotalRewards x))
           @ member_omitempty
               (DistributionQuery_DelegatorValidators x = None) ''delegator_validators''
               ((enc_ptr DelegatorValidatorsQuery_json) (DistributionQuery_DelegatorValidators x)))"

definition DistributionQuery_store :: "string \<Rightarrow> DistributionQuery decoder" where
  "DistributionQuery_store key =
     (if names_field key ''delegator_withdraw_address'' then
        store_field (dec_ptr DelegatorWithdrawAddressQuery_zero DelegatorWithdrawAddressQuery_dec)
          DistributionQuery_DelegatorWithdrawAddress
          (\<lambda>f x. x\<lparr>DistributionQuery_DelegatorWithdrawAddress := f\<rparr>)
      else if names_field key ''delegation_rewards'' then
        store_field (dec_ptr DelegationRewardsQuery_zero DelegationRewardsQuery_dec)
          DistributionQuery_DelegationRewards
          (\<lambda>f x. x\<lparr>DistributionQuery_DelegationRewards := f\<rparr>)
      else if names_field key ''delegation_total_rewards'' then
        store_field (dec_ptr DelegationTotalRewardsQuery_zero DelegationTotalRewardsQuery_dec)
          DistributionQuery_DelegationTotalRewards
          (\<lambda>f x. x\<lparr>DistributionQuery_DelegationTotalRewards := f\<rparr>)
      else if names_field key ''delegator_validators'' then
        store_field (dec_ptr DelegatorValidatorsQuery_zero DelegatorValidatorsQuery_dec)
          DistributionQuery_DelegatorValidators
          (\<lambda>f x. x\<lparr>DistributionQuery_DelegatorValidators := f\<rparr>)
      else (\<lambda>v x. Inr x))"

definition DistributionQuery_dec :: "DistributionQuery decoder" where
  "DistributionQuery_dec = dec_struct DistributionQuery_store"

text \<open>\<^verbatim>\<open>StargateQuery\<close> (lines 339-346).\<close>

record StargateQuery =
  StargateQuery_Data :: "byte_slice"
  StargateQuery_Path :: "string"

definition StargateQuery_zero :: "StargateQuery" where
  "StargateQuery_zero =
     \<lparr>StargateQuery_Data = None, StargateQuery_Path = []\<rparr>"

definition StargateQuery_json :: "StargateQuery \<Rightarrow> json" where
  "StargateQuery_json x =
     JObj (member ''data'' (enc_bytes (StargateQuery_Data x))
           @ member ''path'' (enc_string (StargateQuery_Path x)))"

definition StargateQuery_store :: "string \<Rightarrow> StargateQuery decoder" where
  "StargateQuery_store key =
     (if names_field key ''data'' then
        store_field dec_bytes StargateQuery_Data
          (\<lambda>f x. x\<lparr>StargateQuery_Data := f\<rparr>)
      else if names_field key ''path'' then
        store_field dec_string StargateQuery_Path
          (\<lambda>f x. x\<lparr>StargateQuery_Path := f\<rparr>)
      else (\<lambda>v x. Inr x))"

definition StargateQuery_dec :: "StargateQuery decoder" where
  "StargateQuery_dec = dec_struct StargateQuery_store"

text \<open>\<^verbatim>\<open>GrpcQuery\<close> (lines 353-360).\<close>

record GrpcQuery =
  GrpcQuery_Data :: "byte_slice"
  GrpcQuery_Path :: "string"

definition GrpcQuery_zero :: "GrpcQuery" where
  "GrpcQuery_zero =
     \<lparr>GrpcQuery_Data = None, GrpcQuery_Path = []\<rparr>"

definition GrpcQuery_json :: "GrpcQuery \<Rightarrow> json" where
  "GrpcQuery_json x =
     JObj (member ''data'' (enc_bytes (GrpcQuery_Data x))
           @ member ''path'' (enc_string (GrpcQuery_Path x)))"

definition GrpcQuery_store :: "string \<Rightarrow> GrpcQuery decoder" where
  "GrpcQuery_store key =
     (if names_field key ''data'' then
        store_field dec_bytes GrpcQuery_Data
          (\<lambda>f x. x\<lparr>GrpcQuery_Data := f\<rparr>)
      else if names_field key ''path'' then
        store_field dec_string GrpcQuery_Path
          (\<lambda>f x. x\<lparr>GrpcQuery_Path := f\<rparr>)
      else (\<lambda>v x. Inr x))"

definition GrpcQuery_dec :: "GrpcQuery decoder" where
  "GrpcQuery_dec = dec_struct GrpcQuery_store"

text \<open>\<^verbatim>\<open>SmartQuery\<close> (lines 371-375).\<close>

record SmartQuery =
  SmartQuery_ContractAddr :: "string"
  SmartQuery_Msg :: "byte_slice"

definition SmartQuery_zero :: "SmartQuery" where
  "SmartQuery_zero =
     \<lparr>SmartQuery_ContractAddr = [], SmartQuery_Msg = None\<rparr>"

definition SmartQuery_json :: "SmartQuery \<Rightarrow> json" where
  "SmartQuery_json x =
     JObj (member ''contract_addr'' (enc_string (SmartQuery_ContractAddr x))
           @ member ''msg'' (enc_bytes (SmartQuery_Msg x)))"

definition SmartQuery_store :: "string \<Rightarrow> SmartQuery decoder" where
  "SmartQuery_store key =
     (if names_field key ''contract_addr'' then
        store_field dec_string SmartQuery_ContractAddr
          (\<lambda>f x. x\<lparr>SmartQuery_ContractAddr := f\<rparr>)
      else if names_field key ''msg'' then
        store_field dec_bytes SmartQuery_Msg
          (\<lambda>f x. x\<lparr>SmartQuery_Msg := f\<rparr>)
      else (\<lambda>v x. Inr x))"

definition SmartQuery_dec :: "SmartQuery decoder" where
  "SmartQuery_dec = dec_struct SmartQuery_store"

text \<open>\<^verbatim>\<open>RawQuery\<close> (lines 378-382).\<close>

record RawQuery =
  RawQuery_ContractAddr :: "string"
  RawQuery_Key :: "byte_slice"

definition RawQuery_zero :: "RawQuery" where
  "RawQuery_zero =
     \<lparr>RawQuery_ContractAddr = [], RawQuery_Key = None\<rparr>"

definition RawQuery_json :: "RawQuery \<Rightarrow> json" where
  "RawQuery_json x =
     JObj (member ''contract_addr'' (enc_string (RawQuery_ContractAddr x))
           @ member ''key'' (enc_bytes (RawQuery_Key x)))"

definition RawQuery_store :: "string \<Rightarrow> RawQuery decoder" where
  "RawQuery_store key =
     (if names_field key ''contract_addr'' then
        store_field dec_string RawQuery_ContractAddr
          (\<lambda>f x. x\<lparr>RawQuery_ContractAddr := f\<rparr>)
      else if names_field key ''key'' then
        store_field dec_bytes RawQuery_Key (\<lambda>f x. x\<lparr>RawQuery_Key := f\<rparr>)
      else (\<lambda>v x. Inr x))"

definition RawQuery_dec :: "RawQuery decoder" where
  "RawQuery_dec = dec_struct RawQuery_store"

text \<open>\<^verbatim>\<open>RawRangeQuery\<close> (lines 384-399).\<close>

record RawRangeQuery =
  RawRangeQuery_ContractAddr :: "string"
  RawRangeQuery_Start :: "byte_slice"
  RawRangeQuery_End :: "byte_slice"
  RawRangeQuery_Limit :: "uint16"
  RawRangeQuery_Order :: "string"

definition RawRangeQuery_zero :: "RawRangeQuery" where
  "RawRangeQuery_zero =
     \<lparr>RawRangeQuery_ContractAddr = [],
      RawRangeQuery_Start = None,
      RawRangeQuery_End = None,
      RawRangeQuery_Limit = 0,
      RawRangeQuery_Order = []\<rparr>"

definition RawRangeQuery_json :: "RawRangeQuery \<Rightarrow> json" where
  "RawRangeQuery_json x =
     JObj (member ''contract_addr'' (enc_string (RawRangeQuery_ContractAddr x))
           @ member_omitempty (len_slice (RawRangeQuery_Start x) = 0) ''start''
               (enc_bytes (RawRangeQuery_Start x))
           @ member_omitempty (len_slice (RawRangeQuery_End x) = 0) ''end''
               (enc_bytes (RawRangeQuery_End x))
           @ member ''limit'' (enc_uint (RawRangeQuery_Limit x))
           @ member ''order'' (enc_string (RawRangeQuery_Order x)))"

definition RawRangeQuery_store :: "string \<Rightarrow> RawRangeQuery decoder" where
  "RawRangeQuery_store key =
     (if names_field key ''contract_addr'' then
        store_field dec_string RawRangeQuery_ContractAddr
          (\<lambda>f x. x\<lparr>RawRangeQuery_ContractAddr := f\<rparr>)
      else if names_field key ''start'' then
        store_field dec_bytes RawRangeQuery_Start
          (\<lambda>f x. x\<lparr>RawRangeQuery_Start := f\<rparr>)
      else if names_field key ''end'' then
        store_field dec_bytes RawRangeQuery_End
          (\<lambda>f x. x\<lparr>RawRangeQuery_End := f\<rparr>)
      else if names_field key ''limit'' then
        store_field dec_uint RawRangeQuery_Limit
          (\<lambda>f x. x\<lparr>RawRangeQuery_Limit := f\<rparr>)
      else if names_field key ''order'' then
        store_field dec_string RawRangeQuery_Order
          (\<lambda>f x. x\<lparr>RawRangeQuery_Order := f\<rparr>)
      else (\<lambda>v x. Inr x))"

definition RawRangeQuery_dec :: "RawRangeQuery decoder" where
  "RawRangeQuery_dec = dec_struct RawRangeQuery_store"

text \<open>\<^verbatim>\<open>ContractInfoQuery\<close> (lines 432-435).\<close>

record ContractInfoQuery =
  ContractInfoQuery_ContractAddr :: "string"

definition ContractInfoQuery_zero :: "ContractInfoQuery" where
  "ContractInfoQuery_zero =
     \<lparr>ContractInfoQuery_ContractAddr = []\<rparr>"

definition ContractInfoQuery_json :: "ContractInfoQuery \<Rightarrow> json" where
  "ContractInfoQuery_json x =
     JObj (member ''contract_addr'' (enc_string (ContractInfoQuery_ContractAddr x)))"

definition ContractInfoQuery_store :: "string \<Rightarrow> ContractInfoQuery decoder" where
  "ContractInfoQuery_store key =
     (if names_field key ''contract_addr'' then
        store_field dec_string ContractInfoQuery_ContractAddr
          (\<lambda>f x. x\<lparr>ContractInfoQuery_ContractAddr := f\<rparr>)
      else (\<lambda>v x. Inr x))"

definition ContractInfoQuery_dec :: "ContractInfoQuery decoder" where
  "ContractInfoQuery_dec = dec_struct ContractInfoQuery_store"

text \<open>\<^verbatim>\<open>CodeInfoQuery\<close> (lines 449-451).\<close>

record CodeInfoQuery =
  CodeInfoQuery_CodeID :: "uint64"

definition CodeInfoQuery_zero :: "CodeInfoQuery" where
  "CodeInfoQuery_zero =
     \<lparr>CodeInfoQuery_CodeID = 0\<rparr>"

definition CodeInfoQuery_json :: "CodeInfoQuery \<Rightarrow> json" where
  "CodeInfoQuery_json x =
     JObj (member ''code_id'' (enc_uint (CodeInfoQuery_CodeID x)))"

definition CodeInfoQuery_store :: "string \<Rightarrow> CodeInfoQuery decoder" where
  "CodeInfoQuery_store key =
     (if names_field key ''code_id'' then
        store_field dec_uint CodeInfoQuery_CodeID
          (\<lambda>f x. x\<lparr>CodeInfoQuery_CodeID := f\<rparr>)
      else (\<lambda>v x. Inr x))"

definition CodeInfoQuery_dec :: "CodeInfoQuery decoder" where
  "CodeInfoQuery_dec = dec_struct CodeInfoQuery_store"

text \<open>\<^verbatim>\<open>WasmQuery\<close> (lines 362-368).\<close>

record WasmQuery =
  WasmQuery_Smart :: "SmartQuery option"
  WasmQuery_Raw :: "RawQuery option"
  WasmQuery_ContractInfo :: "ContractInfoQuery option"
  WasmQuery_CodeInfo :: "CodeInfoQuery option"
  WasmQuery_RawRange :: "RawRangeQuery option"

definition WasmQuery_zero :: "WasmQuery" where
  "WasmQuery_zero =
     \<lparr>WasmQuery_Smart = None,
      WasmQuery_Raw = None,
      WasmQuery_ContractInfo = None,
      WasmQuery_CodeInfo = None,
      WasmQuery_RawRange = None\<rparr>"

definition WasmQuery_json :: "WasmQuery \<Rightarrow> json" where
  "WasmQuery_json x =
     JObj (member_omitempty (WasmQuery_Smart x = None) ''smart''
               ((enc_ptr SmartQuery_json) (WasmQuery_Smart x))
           @ member_omitempty (WasmQuery_Raw x = None) ''raw''
               ((enc_ptr RawQuery_json) (WasmQuery_Raw x))
           @ member_omitempty (WasmQuery_ContractInfo x = None) ''contract_info''
               ((enc_ptr ContractInfoQuery_json) (WasmQuery_ContractInfo x))
           @ member_omitempty (WasmQuery_CodeInfo x = None) ''code_info''
               ((enc_ptr CodeInfoQuery_json) (WasmQuery_CodeInfo x))
           @ member_omitempty (WasmQuery_RawRange x = None) ''raw_range''
               ((enc_ptr RawRangeQuery_json) (WasmQuery_RawRange x)))"

definition WasmQuery_store :: "string \<Rightarrow> WasmQuery decoder" where
  "WasmQuery_store key =
     (if names_field key ''smart'' then
        store_field (dec_ptr SmartQuery_zero SmartQuery_dec) WasmQuery_Smart
          (\<lambda>f x. x\<lparr>WasmQuery_Smart := f\<rparr>)
      else if names_field key ''raw'' then
        store_field (dec_ptr RawQuery_zero RawQuery_dec) WasmQuery_Raw
          (\<lambda>f x. x\<lparr>WasmQuery_Raw := f\<rparr>)
      else if names_field key ''contract_info'' then
        store_field (dec_ptr ContractInfoQuery_zero ContractInfoQuery_dec) WasmQuery_ContractInfo
          (\<lambda>f x. x\<lparr>WasmQuery_ContractInfo := f\<rparr>)
      else if names_field key ''code_info'' then
        store_field (dec_ptr CodeInfoQuery_zero CodeInfoQuery_dec) WasmQuery_CodeInfo
          (\<lambda>f x. x\<lparr>WasmQuery_CodeInfo := f\<rparr>)
      else if names_field key ''raw_range'' then
        store_field (dec_ptr RawRangeQuery_zero RawRangeQuery_dec) WasmQuery_RawRange
          (\<lambda>f x. x\<lparr>WasmQuery_RawRange := f\<rparr>)
      else (\<lambda>v x. Inr x))"

definition WasmQuery_dec :: "WasmQuery decoder" where
  "WasmQuery_dec = dec_struct WasmQuery_store"

text \<open>\<^verbatim>\<open>QueryRequest\<close> (lines 103-112).\<close>

record 'p QueryRequest =
  Bank :: "'p BankQuery option"
  Custom :: "json option"
  IBC :: "IBCQuery option"
  Staking :: "StakingQuery option"
  Distribution :: "DistributionQuery option"
  Stargate :: "StargateQuery option"
  Grpc :: "GrpcQuery option"
  Wasm :: "WasmQuery option"

definition QueryRequest_zero :: "'p QueryRequest" where
  "QueryRequest_zero =
     \<lparr>Bank = None,
      Custom = None,
      IBC = None,
      Staking = None,
      Distribution = None,
      Stargate = None,
      Grpc = None,
      Wasm = None\<rparr>"

definition QueryRequest_json ::
  "'p PageRequest_codec \<Rightarrow> 'p QueryRequest \<Rightarrow> json" where
  "QueryRequest_json pc x =
     JObj (member_omitempty (Bank x = None) ''bank'' ((enc_ptr (BankQuery_json pc)) (Bank x))
           @ member_omitempty (Custom x = None) ''custom'' (enc_raw (Custom x))
           @ member_omitempty (IBC x = None) ''ibc'' ((enc_ptr IBCQuery_json) (IBC x))
           @ member_omitempty (Staking x = None) ''staking''
               ((enc_ptr StakingQuery_json) (Staking x))
           @ member_omitempty (Distribution x = None) ''distribution''
               ((enc_ptr DistributionQuery_json) (Distribution x))
           @ member_omitempty (Stargate x = None) ''stargate''
               ((enc_ptr StargateQuery_json) (Stargate x))
           @ member_omitempty (Grpc x = None) ''grpc'' ((enc_ptr GrpcQuery_json) (Grpc x))
           @ member_omitempty (Wasm x = None) ''wasm'' ((enc_ptr WasmQuery_json) (Wasm x)))"

definition QueryRequest_store ::
  "'p PageRequest_codec \<Rightarrow> string \<Rightarrow> 'p QueryRequest decoder" where
  "QueryRequest_store pc key =
     (if names_field key ''bank'' then
        store_field (dec_ptr BankQuery_zero (BankQuery_dec pc)) Bank
          (\<lambda>f x. x\<lparr>Bank := f\<rparr>)
      else if names_field key ''custom'' then
        store_field dec_raw Custom (\<lambda>f x. x\<lparr>Custom := f\<rparr>)
      else if names_field key ''ibc'' then
        store_field (dec_ptr IBCQuery_zero IBCQuery_dec) IBC
          (\<lambda>f x. x\<lparr>IBC := f\<rparr>)
      else if names_field key ''staking'' then
        store_field (dec_ptr StakingQuery_zero StakingQuery_dec) Staking
          (\<lambda>f x. x\<lparr>Staking := f\<rparr>)
      else if names_field key ''distribution'' then
        store_field (dec_ptr DistributionQuery_zero DistributionQuery_dec) Distribution
          (\<lambda>f x. x\<lparr>Distribution := f\<rparr>)
      else if names_field key ''stargate'' then
        store_field (dec_ptr StargateQuery_zero StargateQuery_dec) Stargate
          (\<lambda>f x. x\<lparr>Stargate := f\<rparr>)
      else if names_field key ''grpc'' then
        store_field (dec_ptr GrpcQuery_zero GrpcQuery_dec) Grpc
          (\<lambda>f x. x\<lparr>Grpc := f\<rparr>)
      else if names_field key ''wasm'' then
        store_field (dec_ptr WasmQuery_zero WasmQuery_dec) Wasm
          (\<lambda>f x. x\<lparr>Wasm := f\<rparr>)
      else (\<lambda>v x. Inr x))"

definition QueryRequest_dec :: "'p PageRequest_codec \<Rightarrow> 'p QueryRequest decoder" where
  "QueryRequest_dec pc = dec_struct (QueryRequest_store pc)"

section \<open>The dispatcher\<close>

text \<open>
  \<^verbatim>\<open>ToQuerierResult\<close> (lines 80-99). A Go \<^verbatim>\<open>error\<close> is an interface value: \<^term>\<open>None\<close> is the
  \<^verbatim>\<open>nil\<close> error, and of a non-nil error \<^typ>\<open>'e\<close> the function uses its \<^verbatim>\<open>Error()\<close> message
  and the classification by \<^verbatim>\<open>ToSystemError\<close>. \<^verbatim>\<open>ToSystemError\<close> is declared in another
  file of the package and is a parameter here; it returns a \<^verbatim>\<open>*SystemError\<close>, \<^verbatim>\<open>nil\<close> for an
  error that is no system error.
\<close>

definition ToQuerierResult ::
  "('e \<Rightarrow> SystemError option) \<Rightarrow> ('e \<Rightarrow> string) \<Rightarrow> byte_slice \<Rightarrow> 'e option \<Rightarrow> QuerierResult" where
  "ToQuerierResult ToSystemError Error response err =
     (case err of
        None \<Rightarrow> \<lparr>qr_Ok = Some \<lparr>Ok = response, Err = []\<rparr>, qr_Err = None\<rparr>
      | Some e \<Rightarrow>
          (case ToSystemError e of
             Some syserr \<Rightarrow> \<lparr>qr_Ok = None, qr_Err = Some syserr\<rparr>
           | None \<Rightarrow> \<lparr>qr_Ok = Some \<lparr>Ok = None, Err = Error e\<rparr>, qr_Err = None\<rparr>))"

text \<open>
  \<^verbatim>\<open>RustQuery\<close> (lines 57-72). \<^verbatim>\<open>json.Unmarshal(binRequest, &request)\<close>, with \<^verbatim>\<open>request\<close> a
  new \<^verbatim>\<open>QueryRequest\<close>, is the parameter \<open>unmarshal\<close>: it returns the error (\<^term>\<open>Inl\<close>) or the
  decoded request, so that what is proved of \<^verbatim>\<open>RustQuery\<close> holds for the library itself and for
  its model above, \<open>\<lambda>b. json_Unmarshal (QueryRequest_dec pc) b QueryRequest_zero\<close>. The querier
  is a non-nil interface value: its \<^verbatim>\<open>Query\<close> method takes the request and the gas limit and
  returns \<^verbatim>\<open>([]byte, error)\<close>.
\<close>

definition RustQuery ::
  "('e \<Rightarrow> SystemError option) \<Rightarrow> ('e \<Rightarrow> string) \<Rightarrow> (byte_slice \<Rightarrow> 'e + 'p QueryRequest) \<Rightarrow>
   ('p QueryRequest \<Rightarrow> uint64 \<Rightarrow> byte_slice \<times> 'e option) \<Rightarrow> byte_slice \<Rightarrow> uint64 \<Rightarrow> QuerierResult"
  where
  "RustQuery ToSystemError Error unmarshal querier binRequest gasLimit =
     (case unmarshal binRequest of
        Inl err \<Rightarrow>
          \<lparr>qr_Ok = None,
           qr_Err = Some (SystemError_zero
             \<lparr>InvalidRequest := Some \<lparr>ir_Err = Error err, ir_Request = binRequest\<rparr>\<rparr>)\<rparr>
      | Inr request \<Rightarrow>
          (case querier request gasLimit of
             (bz, err) \<Rightarrow> ToQuerierResult ToSystemError Error bz err))"

section \<open>Responses\<close>

text \<open>\<^verbatim>\<open>Validator\<close> (lines 235-243) and \<^verbatim>\<open>ValidatorResponse\<close> (lines 231-233), whose field has
  the tag \<^verbatim>\<open>validator\<close> without \<^verbatim>\<open>omitempty\<close>.\<close>

record Validator =
  Validator_Address :: string
  Validator_Commission :: string
  Validator_MaxCommission :: string
  Validator_MaxChangeRate :: string

definition Validator_json :: "Validator \<Rightarrow> json" where
  "Validator_json x =
     JObj (member ''address'' (enc_string (Validator_Address x))
           @ member ''commission'' (enc_string (Validator_Commission x))
           @ member ''max_commission'' (enc_string (Validator_MaxCommission x))
           @ member ''max_change_rate'' (enc_string (Validator_MaxChangeRate x)))"

record ValidatorResponse =
  ValidatorResponse_Validator :: "Validator option"

definition ValidatorResponse_json :: "ValidatorResponse \<Rightarrow> json" where
  "ValidatorResponse_json x =
     JObj (member ''validator'' (enc_ptr Validator_json (ValidatorResponse_Validator x)))"

text \<open>\<^verbatim>\<open>ContractInfoResponse\<close> (lines 437-447).\<close>

record ContractInfoResponse =
  ContractInfoResponse_CodeID :: uint64
  ContractInfoResponse_Creator :: string
  ContractInfoResponse_Admin :: string
  ContractInfoResponse_Pinned :: bool
  ContractInfoResponse_IBCPort :: string
  ContractInfoResponse_IBC2Port :: string

definition ContractInfoResponse_json :: "ContractInfoResponse \<Rightarrow> json" where
  "ContractInfoResponse_json x =
     JObj (member ''code_id'' (enc_uint (ContractInfoResponse_CodeID x))
           @ member ''creator'' (enc_string (ContractInfoResponse_Creator x))
           @ member_omitempty (length (ContractInfoResponse_Admin x) = 0) ''admin''
               (enc_string (ContractInfoResponse_Admin x))
           @ member ''pinned'' (JBool (ContractInfoResponse_Pinned x))
           @ member_omitempty (length (ContractInfoResponse_IBCPort x) = 0) ''ibc_port''
               (enc_string (ContractInfoResponse_IBCPort x))
           @ member_omitempty (length (ContractInfoResponse_IBC2Port x) = 0) ''ibc2_port''
               (enc_string (ContractInfoResponse_IBC2Port x)))"

text \<open>
  \<^verbatim>\<open>RawRangeResponse\<close> (lines 401-406). The type \<^verbatim>\<open>Array\<close> of the field \<^verbatim>\<open>Data\<close> is declared
  in another file: the field has the type \<^typ>\<open>'a\<close> and its encoding is a parameter.
\<close>

record 'a RawRangeResponse =
  RawRangeResponse_Data :: 'a
  RawRangeResponse_NextKey :: byte_slice

definition RawRangeResponse_json :: "('a \<Rightarrow> json) \<Rightarrow> 'a RawRangeResponse \<Rightarrow> json" where
  "RawRangeResponse_json Array_json x =
     JObj (member ''data'' (Array_json (RawRangeResponse_Data x))
           @ member ''next_key'' (enc_bytes (RawRangeResponse_NextKey x)))"

section \<open>The range scan\<close>

text \<open>
  Modelled from the spec: the scan that answers a \<^verbatim>\<open>RawRangeQuery\<close> is done by the responder of
  the host and is not in \<^verbatim>\<open>queries.go\<close>, which declares the request and the response only.
  By the spec, \<open>start\<close> is the inclusive lower bound and \<open>end\<close> the exclusive upper bound, each
  open when absent; at most \<open>limit\<close> entries are returned, in ascending or descending order of
  the keys; \<open>next_key\<close> is absent when there are no further entries and is otherwise the key to
  resume from. The comment on \<^verbatim>\<open>Start\<close> (line 389) compares the bounds lexicographically.
  The key space is a list of entries in ascending order of their keys.
\<close>

fun bytes_less :: "bytes \<Rightarrow> bytes \<Rightarrow> bool" where
  "bytes_less [] [] = False"
| "bytes_less [] (b # bs) = True"
| "bytes_less (a # as) [] = False"
| "bytes_less (a # as) (b # bs) =
     ((of_char a :: nat) < of_char b \<or> (a = b \<and> bytes_less as bs))"

definition in_range :: "byte_slice \<Rightarrow> byte_slice \<Rightarrow> bytes \<Rightarrow> bool" where
  "in_range start_key end_key k =
     ((case start_key of None \<Rightarrow> True | Some s \<Rightarrow> \<not> bytes_less k s)
      \<and> (case end_key of None \<Rightarrow> True | Some e \<Rightarrow> bytes_less k e))"

definition raw_range_scan ::
  "(bytes \<times> bytes) list \<Rightarrow> byte_slice \<Rightarrow> byte_slice \<Rightarrow> uint16 \<Rightarrow> bool
     \<Rightarrow> (bytes \<times> bytes) list \<times> byte_slice" where
  "raw_range_scan store start_key end_key limit descending =
     (let selected = filter (\<lambda>(k, v). in_range start_key end_key k) store;
          ordered = (if descending then rev selected else selected)
      in (take (unat limit) ordered,
          case drop (unat limit) ordered of [] \<Rightarrow> None | (k, v) # _ \<Rightarrow> Some k))"

section \<open>Observations on encodings\<close>

text \<open>The member names of an encoded object, in order, and their number: the branches that
  a union has on the wire.\<close>

definition keys_of :: "json \<Rightarrow> string list" where
  "keys_of v = (case v of JObj ms \<Rightarrow> map fst ms | _ \<Rightarrow> [])"

definition branches :: "json \<Rightarrow> nat" where
  "branches v = length (keys_of v)"

text \<open>\<open>set_fields\<close> counts the fields of a struct that are set, given for each whether it is.\<close>

definition set_fields :: "bool list \<Rightarrow> nat" where
  "set_fields bs = length (filter (\<lambda>b. b) bs)"

text \<open>The characters of a base64 string: the alphabet and the padding character.\<close>

definition plain :: "char \<Rightarrow> bool" where
  "plain c \<longleftrightarrow> (of_char c :: nat) \<in> {43, 47, 61} \<union> {48..57} \<union> {65..90} \<union> {97..122}"

section \<open>Values that survive the round trip\<close>




























section \<open>Base64 round trip\<close>

lemma b64_index_char: "n < 64 \<Longrightarrow> b64_index (b64_char n) = Some n"
  by (auto simp: b64_index_def b64_char_def Let_def)

lemma b64_char_code: "n < 64 \<Longrightarrow> (of_char (b64_char n) :: nat) \<in> {43, 47} \<union> {48..57} \<union> {65..90} \<union> {97..122}"
  by (auto simp: b64_char_def)

lemma b64_char_not_pad: "n < 64 \<Longrightarrow> b64_char n \<noteq> CHR ''=''"
  using b64_char_code [of n] by (auto simp: b64_char_def)

lemma b64_char_not_nl: "n < 64 \<Longrightarrow> b64_char n \<noteq> CHR 0x0D \<and> b64_char n \<noteq> CHR 0x0A"
  using b64_char_code [of n] by (auto simp: b64_char_def)

lemma byte_lt: "(of_char (c::char) :: nat) < 256"
  by simp

lemma dm1: "r < n \<Longrightarrow> (q * n + r) div n = (q::nat)" by simp
lemma dm2: "r < n \<Longrightarrow> (q * n + r) mod n = (r::nat)" by simp

lemma b64_q1: assumes "y < 256" shows "(x div 4) * 4 + ((x mod 4) * 16 + y div 16) div 16 = (x::nat)"
proof -
  from assms have "y div 16 < 16" by (simp add: div_less_iff_less_mult)
  then have "((x mod 4) * 16 + y div 16) div 16 = x mod 4" by (rule dm1)
  then show ?thesis by simp
qed

lemma b64_q2: assumes "y < 256" "z < 256" 
  shows "(((x mod 4) * 16 + y div 16) mod 16) * 16 + ((y mod 16) * 4 + z div 64) div 4 = (y::nat)"
proof -
  from assms have a: "y div 16 < 16" "z div 64 < 4" by (simp_all add: div_less_iff_less_mult)
  have "((x mod 4) * 16 + y div 16) mod 16 = y div 16" using a(1) by (rule dm2)
  moreover have "((y mod 16) * 4 + z div 64) div 4 = y mod 16" using a(2) by (rule dm1)
  ultimately show ?thesis by simp
qed

lemma b64_q3: assumes "z < 256" shows "(((y mod 16) * 4 + z div 64) mod 4) * 64 + z mod 64 = (z::nat)"
proof -
  from assms have a: "z div 64 < 4" by (simp_all add: div_less_iff_less_mult)
  have "((y mod 16) * 4 + z div 64) mod 4 = z div 64" using a by (rule dm2)
  then show ?thesis by simp
qed

lemma b64_q1': "(x div 4) * 4 + ((x mod 4) * 16) div 16 = (x::nat)"
  by simp

lemma b64_q2': assumes "y < 256" shows
    "(((x mod 4) * 16 + y div 16) mod 16) * 16 + ((y mod 16) * 4) div 4 = (y::nat)"
proof -
  from assms have a: "y div 16 < 16" by (simp_all add: div_less_iff_less_mult)
  have "((x mod 4) * 16 + y div 16) mod 16 = y div 16" using a(1) by (rule dm2)
  then show ?thesis by simp
qed

lemma r1: "x < 256 \<Longrightarrow> x div 4 < (64::nat)" by (simp add: div_less_iff_less_mult)
lemma r2: "y < 256 \<Longrightarrow> (x mod 4) * 16 + y div 16 < (64::nat)"
proof -
  assume "y < 256" then have "y div 16 < 16" by (simp add: div_less_iff_less_mult)
  moreover have "x mod 4 < 4" by simp
  then have "x mod 4 \<le> 3" by linarith
  then have "(x mod 4) * 16 \<le> 48" by linarith
  ultimately show ?thesis by linarith
qed
lemma r3: "z < 256 \<Longrightarrow> (y mod 16) * 4 + z div 64 < (64::nat)"
proof -
  assume "z < 256" then have "z div 64 < 4" by (simp add: div_less_iff_less_mult)
  moreover have "y mod 16 < 16" by simp
  then have "y mod 16 \<le> 15" by linarith
  then have "(y mod 16) * 4 \<le> 60" by linarith
  ultimately show ?thesis by linarith
qed
lemma r3': "(y mod 16) * 4 < (64::nat)"
  using r3 [of 0 y] by simp
lemma r2': "(x mod 4) * 16 < (64::nat)"
  using r2 [of 0 x] by simp

lemma b64_encode_no_nl: "filter (\<lambda>c. c \<noteq> CHR 0x0D \<and> c \<noteq> CHR 0x0A) (b64_encode bs) = b64_encode bs"
proof (induction bs rule: b64_encode.induct)
  case (4 a b c rest)
  have "(of_char a :: nat) < 256" "(of_char b :: nat) < 256" "(of_char c :: nat) < 256" by simp_all
  then have "of_char a div 4 < (64::nat)" "(of_char a mod 4) * 16 + of_char b div 16 < (64::nat)"
    "(of_char b mod 16) * 4 + of_char c div 64 < (64::nat)" "of_char c mod 64 < (64::nat)"
    by (simp_all add: r1 r2 r3)
  with 4 show ?case by (simp add: Let_def b64_char_not_nl)
next
  case (3 a b)
  have "(of_char a :: nat) < 256" "(of_char b :: nat) < 256" by simp_all
  then have "of_char a div 4 < (64::nat)" "(of_char a mod 4) * 16 + of_char b div 16 < (64::nat)"
    "(of_char b mod 16) * 4 < (64::nat)"
    by (simp_all add: r1 r2 r3')
  then show ?case by (simp add: Let_def b64_char_not_nl)
next
  case (2 a)
  have "(of_char a :: nat) < 256" by simp
  then have "of_char a div 4 < (64::nat)" "(of_char a mod 4) * 16 < (64::nat)"
    by (simp_all add: r1 r2')
  then show ?case by (simp add: Let_def b64_char_not_nl)
qed simp

lemma b64_quanta_encode: "b64_quanta (b64_encode bs) = Some bs"
proof (induction bs rule: b64_encode.induct)
  case (4 a b c rest)
  define x y z where "x = (of_char a :: nat)" and "y = (of_char b :: nat)" and "z = (of_char c :: nat)"
  have lt: "x < 256" "y < 256" "z < 256" by (simp_all add: x_def y_def z_def)
  then have r: "x div 4 < 64" "(x mod 4) * 16 + y div 16 < 64"
    "(y mod 16) * 4 + z div 64 < 64" "z mod 64 < 64"
    by (simp_all add: r1 r2 r3)
  have chr: "char_of x = a" "char_of y = b" "char_of z = c" by (simp_all add: x_def y_def z_def)
  have enc: "b64_encode (a # b # c # rest) =
      [b64_char (x div 4), b64_char ((x mod 4) * 16 + y div 16),
       b64_char ((y mod 16) * 4 + z div 64), b64_char (z mod 64)] @ b64_encode rest"
    by (simp add: Let_def x_def y_def z_def)
  show ?case
    unfolding enc using 4
    by (simp only: append.simps b64_quanta.simps b64_index_char r b64_char_not_pad
          b64_q1 b64_q2 b64_q3 lt chr prod.case option.case if_False)
next
  case (3 a b)
  define x y where "x = (of_char a :: nat)" and "y = (of_char b :: nat)"
  have lt: "x < 256" "y < 256" by (simp_all add: x_def y_def)
  then have r: "x div 4 < 64" "(x mod 4) * 16 + y div 16 < 64" "(y mod 16) * 4 < 64"
    by (simp_all add: r1 r2 r3')
  have chr: "char_of x = a" "char_of y = b" by (simp_all add: x_def y_def)
  have enc: "b64_encode [a, b] =
      [b64_char (x div 4), b64_char ((x mod 4) * 16 + y div 16),
       b64_char ((y mod 16) * 4), CHR ''='']"
    by (simp add: Let_def x_def y_def)
  show ?case
    unfolding enc
    by (simp only: b64_quanta.simps b64_index_char r b64_char_not_pad
          b64_q1 b64_q2' lt chr prod.case option.case if_False if_True simp_thms)
next
  case (2 a)
  define x where "x = (of_char a :: nat)"
  have lt: "x < 256" by (simp_all add: x_def)
  then have r: "x div 4 < 64" "(x mod 4) * 16 < 64"
    by (simp_all add: r1 r2')
  have chr: "char_of x = a" by (simp_all add: x_def)
  have enc: "b64_encode [a] =
      [b64_char (x div 4), b64_char ((x mod 4) * 16), CHR ''='', CHR ''='']"
    by (simp add: Let_def x_def)
  show ?case
    unfolding enc
    by (simp only: b64_quanta.simps b64_index_char r b64_char_not_pad
          b64_q1' lt chr prod.case option.case if_False if_True simp_thms)
qed simp

lemma b64_decode_encode: "b64_decode (b64_encode bs) = Some bs"
  by (simp add: b64_decode_def b64_encode_no_nl b64_quanta_encode)

section \<open>Field codecs\<close>

lemma dec_elems_length:
  "dec_elems zero dec vs old = Inr xs \<Longrightarrow> length xs = length vs"
  by (induction vs arbitrary: old xs) (auto split: sum.splits)

lemma utf8_coerce_ascii: "\<forall>c\<in>set s. (of_char c :: nat) < 128 \<Longrightarrow> utf8_coerce s = s"
  by (induction s) (simp_all add: Let_def)

lemma b64_char_ascii: "n < 64 \<Longrightarrow> (of_char (b64_char n) :: nat) < 128"
  using b64_char_code [of n] by auto

lemma b64_encode_ascii: "\<forall>c\<in>set (b64_encode bs). (of_char c :: nat) < 128"
proof (induction bs rule: b64_encode.induct)
  case (4 a b c rest)
  have "(of_char a :: nat) < 256" "(of_char b :: nat) < 256" "(of_char c :: nat) < 256" by simp_all
  then have "of_char a div 4 < (64::nat)" "(of_char a mod 4) * 16 + of_char b div 16 < (64::nat)"
    "(of_char b mod 16) * 4 + of_char c div 64 < (64::nat)" "of_char c mod 64 < (64::nat)"
    by (simp_all add: r1 r2 r3)
  with 4 show ?case by (simp add: Let_def b64_char_ascii)
next
  case (3 a b)
  have "(of_char a :: nat) < 256" "(of_char b :: nat) < 256" by simp_all
  then have "of_char a div 4 < (64::nat)" "(of_char a mod 4) * 16 + of_char b div 16 < (64::nat)"
    "(of_char b mod 16) * 4 < (64::nat)"
    by (simp_all add: r1 r2 r3')
  then show ?case by (simp add: Let_def b64_char_ascii)
next
  case (2 a)
  have "(of_char a :: nat) < 256" by simp
  then have "of_char a div 4 < (64::nat)" "(of_char a mod 4) * 16 < (64::nat)"
    by (simp_all add: r1 r2')
  then show ?case by (simp add: Let_def b64_char_ascii)
qed simp

lemma utf8_coerce_b64: "utf8_coerce (b64_encode bs) = b64_encode bs"
  by (rule utf8_coerce_ascii) (rule b64_encode_ascii)

lemma dec_bytes_enc_bytes: "dec_bytes (denote (enc_bytes b)) old = Inr b"
  by (cases b) (simp_all add: dec_bytes_def enc_bytes_def b64_decode_encode utf8_coerce_b64)

lemma b64_encode_Nil_iff: "b64_encode bs = [] \<longleftrightarrow> bs = []"
  by (cases bs rule: b64_encode.cases) (simp_all add: Let_def)

section \<open>The degenerate success\<close>


text \<open>
  C1. A \<^verbatim>\<open>QueryResult\<close> whose \<^verbatim>\<open>Ok\<close> is empty (nil or of length 0) and whose \<^verbatim>\<open>Err\<close> is empty
  is encoded as exactly the bytes \<^verbatim>\<open>{"ok":""}\<close>, which are also the bytes of
  \<^verbatim>\<open>QueryResult{Ok: []byte{}}\<close>; decoding these bytes gives the empty success (\<^verbatim>\<open>Ok\<close> empty,
  \<^verbatim>\<open>Err\<close> empty) and no error.
\<close>

theorem QueryResult_degenerate_success:
  "QueryResult_MarshalJSON \<lparr>Ok = None, Err = []\<rparr> = Inr ''{\"ok\":\"\"}''
   \<and> QueryResult_MarshalJSON \<lparr>Ok = Some [], Err = []\<rparr> = Inr ''{\"ok\":\"\"}''
   \<and> json_Unmarshal QueryResult_dec (Some ''{\"ok\":\"\"}'') QueryResult_zero
       = Inr \<lparr>Ok = Some [], Err = []\<rparr>"
proof (intro conjI)
  show "QueryResult_MarshalJSON \<lparr>Ok = None, Err = []\<rparr> = Inr ''{\"ok\":\"\"}''"
    by (simp add: QueryResult_MarshalJSON_def len_slice_def)
  show "QueryResult_MarshalJSON \<lparr>Ok = Some [], Err = []\<rparr> = Inr ''{\"ok\":\"\"}''"
    by (simp add: QueryResult_MarshalJSON_def len_slice_def)
  show "json_Unmarshal QueryResult_dec (Some ''{\"ok\":\"\"}'') QueryResult_zero
       = Inr \<lparr>Ok = Some [], Err = []\<rparr>"
    by code_simp
qed

section \<open>The wire form of a range entry\<close>

text \<open>
  C6. A \<^verbatim>\<open>RawRangeEntry\<close> is written as the two-element array \<^verbatim>\<open>[key, value]\<close>, not as an
  object with member names; and \<^verbatim>\<open>UnmarshalJSON\<close> returns an error for every array whose
  length is not 2.
\<close>

theorem RawRangeEntry_wire_form:
  "RawRangeEntry_MarshalJSON r
     = Inr (''['' @ render (enc_bytes (Key r)) @ '','' @ render (enc_bytes (Value r)) @ '']'')
   \<and> (parse_json data = Inr (JArr vs) \<and> length vs \<noteq> 2 \<longrightarrow>
        (\<exists>e. RawRangeEntry_UnmarshalJSON (Some data) r0 = Inl e))"
proof (intro conjI impI)
  show "RawRangeEntry_MarshalJSON r
     = Inr (''['' @ render (enc_bytes (Key r)) @ '','' @ render (enc_bytes (Value r)) @ '']'')"
    by (simp add: RawRangeEntry_MarshalJSON_def RawRangeEntry_json_def enc_byte_slices_def)
next
  assume a: "parse_json data = Inr (JArr vs) \<and> length vs \<noteq> 2"
  show "\<exists>e. RawRangeEntry_UnmarshalJSON (Some data) r0 = Inl e"
  proof (cases "dec_elems None dec_bytes vs []")
    case (Inl e)
    with a show ?thesis
      by (simp add: RawRangeEntry_UnmarshalJSON_def json_Unmarshal_def RawRangeEntry_dec_def
            dec_byte_slices_def dec_slice_def)
  next
    case (Inr xs)
    then have "length xs \<noteq> 2" using a dec_elems_length by fastforce
    then have "\<And>k w. xs \<noteq> [k, w]" by auto
    with Inr a show ?thesis
      by (auto simp: RawRangeEntry_UnmarshalJSON_def json_Unmarshal_def RawRangeEntry_dec_def
            dec_byte_slices_def dec_slice_def split: list.splits)
  qed
qed

theorem RawRangeEntry_wire_form_witness:
  "RawRangeEntry_MarshalJSON \<lparr>Key = Some ''k'', Value = None\<rparr> = Inr ''[\"aw==\",null]''
   \<and> (\<exists>e. RawRangeEntry_UnmarshalJSON (Some ''[\"aw==\",null,\"\"]'') RawRangeEntry_zero = Inl e)"
proof -
  have p: "parse_json ''[\"aw==\",null,\"\"]'' = Inr (JArr [JStr ''aw=='', JNull, JStr []])"
    by code_simp
  have r: "''['' @ render (enc_bytes (Some ''k'')) @ '','' @ render (enc_bytes None) @ '']''
             = ''[\"aw==\",null]''"
    by code_simp
  from RawRangeEntry_wire_form
         [of "\<lparr>Key = Some ''k'', Value = None\<rparr>" "''[\"aw==\",null,\"\"]''"
             "[JStr ''aw=='', JNull, JStr []]" RawRangeEntry_zero] p r
  show ?thesis by simp
qed

section \<open>Reading the text of base64 strings\<close>

lemma plain_ws: "plain c \<Longrightarrow> \<not> is_ws c"
  by (auto simp: plain_def is_ws_def)









lemma prepend_Some: "prepend p (Some (s, rest)) = Some (p @ s, rest)"
  by (simp add: prepend_def)

lemma prepend_prepend: "prepend p (prepend q r) = prepend (p @ q) r"
  by (cases r) (auto simp: prepend_def)

lemma scan_string_high1:
  "128 \<le> (of_char c :: nat) \<Longrightarrow> scan_string (c # X) = prepend [c] (scan_string X)"
proof -
  assume h: "128 \<le> (of_char c :: nat)"
  then have "c \<noteq> CHR 0x22" "c \<noteq> CHR 0x5C" "\<not> (of_char c :: nat) < 0x20" by auto
  then show ?thesis by simp
qed
lemma scan_string_high:
  "\<forall>c\<in>set hs. 128 \<le> (of_char c :: nat) \<Longrightarrow> scan_string (hs @ X) = prepend hs (scan_string X)"
proof (induction hs)
  case Nil
  show ?case by (cases "scan_string X") (auto simp: prepend_def)
next
  case (Cons c hs)
  then show ?case by (simp add: scan_string_high1 prepend_prepend del: scan_string.simps)
qed

lemma utf8_width_one: "utf8_width (a # r) = Suc 0 \<longleftrightarrow> (of_char a :: nat) < 128"
  by (auto simp: Let_def split: list.splits)
lemma utf8_width_two:
  "0xC2 \<le> (of_char a :: nat) \<Longrightarrow> (of_char a :: nat) \<le> 0xDF \<Longrightarrow>
   utf8_width (a # r) = (case r of b # _ \<Rightarrow> if byte_in b 0x80 0xBF then 2 else 0 | _ \<Rightarrow> 0)"
  by (simp add: Let_def)

lemma utf8_width_three:
  "0xE0 \<le> (of_char a :: nat) \<Longrightarrow> (of_char a :: nat) \<le> 0xEF \<Longrightarrow>
   utf8_width (a # r) =
     (case r of
        b # c # _ \<Rightarrow>
          if byte_in b (if (of_char a :: nat) = 0xE0 then 0xA0 else 0x80)
                       (if (of_char a :: nat) = 0xED then 0x9F else 0xBF)
             \<and> byte_in c 0x80 0xBF
          then 3 else 0
      | _ \<Rightarrow> 0)"
  by (simp add: Let_def)

lemma utf8_width_four:
  "0xF0 \<le> (of_char a :: nat) \<Longrightarrow> (of_char a :: nat) \<le> 0xF4 \<Longrightarrow>
   utf8_width (a # r) =
     (case r of
        b # c # d # _ \<Rightarrow>
          if byte_in b (if (of_char a :: nat) = 0xF0 then 0x90 else 0x80)
                       (if (of_char a :: nat) = 0xF4 then 0x8F else 0xBF)
             \<and> byte_in c 0x80 0xBF \<and> byte_in d 0x80 0xBF
          then 4 else 0
      | _ \<Rightarrow> 0)"
  by (simp add: Let_def)

lemma utf8_width_bad:
  "0x80 \<le> (of_char a :: nat) \<Longrightarrow> (of_char a :: nat) < 0xC2 \<or> 0xF4 < (of_char a :: nat) \<Longrightarrow>
   utf8_width (a # r) = 0"
  by (auto simp add: Let_def)

lemma utf8_width_ascii: "(of_char a :: nat) < 0x80 \<Longrightarrow> utf8_width (a # r) = Suc 0"
  by (simp add: Let_def)
lemma utf8_width_Suc:
  assumes w: "utf8_width (a # r) = Suc n"
  shows "n \<le> length r \<and> utf8_width (a # take n r @ Y) = Suc n
         \<and> (0 < n \<longrightarrow> (\<forall>c\<in>set (a # take n r). 128 \<le> (of_char c :: nat)))"
proof -
  let ?x = "of_char a :: nat"
  consider (ascii) "?x < 0x80" | (bad) "0x80 \<le> ?x \<and> (?x < 0xC2 \<or> 0xF4 < ?x)"
    | (two) "0xC2 \<le> ?x \<and> ?x \<le> 0xDF" | (three) "0xE0 \<le> ?x \<and> ?x \<le> 0xEF"
    | (four) "0xF0 \<le> ?x \<and> ?x \<le> 0xF4"
    by linarith
  then show ?thesis
  proof cases
    case ascii
    with w show ?thesis by (simp add: utf8_width_ascii del: utf8_width.simps)
  next
    case bad
    with w show ?thesis by (simp add: utf8_width_bad del: utf8_width.simps)
  next
    case two
    then have e: "\<And>s. utf8_width (a # s)
        = (case s of b # _ \<Rightarrow> if byte_in b 0x80 0xBF then 2 else 0 | _ \<Rightarrow> 0)"
      by (simp add: utf8_width_two del: utf8_width.simps)
    from w two show ?thesis
      unfolding e
      by (cases r) (auto simp: byte_in_def split: if_splits)
  next
    case three
    then have e: "\<And>s. utf8_width (a # s)
        = (case s of
        b # c # _ \<Rightarrow>
          if byte_in b (if ?x = 0xE0 then 0xA0 else 0x80) (if ?x = 0xED then 0x9F else 0xBF)
             \<and> byte_in c 0x80 0xBF
          then 3 else 0
      | _ \<Rightarrow> 0)"
      by (simp add: utf8_width_three del: utf8_width.simps)
    show ?thesis
    proof (cases r)
      case Nil
      with w show ?thesis unfolding e by simp
    next
      case (Cons b r1)
      show ?thesis
      proof (cases r1)
        case Nil
        with Cons w show ?thesis unfolding e by simp
      next
        case (Cons c r2)
        with \<open>r = b # r1\<close> w three show ?thesis
          unfolding e
          by (auto simp: byte_in_def split: if_splits)
      qed
    qed
  next
    case four
    then have e: "\<And>s. utf8_width (a # s)
        = (case s of
        b # c # d # _ \<Rightarrow>
          if byte_in b (if ?x = 0xF0 then 0x90 else 0x80) (if ?x = 0xF4 then 0x8F else 0xBF)
             \<and> byte_in c 0x80 0xBF \<and> byte_in d 0x80 0xBF
          then 4 else 0
      | _ \<Rightarrow> 0)"
      by (simp add: utf8_width_four del: utf8_width.simps)
    show ?thesis
    proof (cases r)
      case Nil
      with w show ?thesis unfolding e by simp
    next
      case (Cons b r1)
      show ?thesis
      proof (cases r1)
        case Nil
        with Cons w show ?thesis unfolding e by simp
      next
        case (Cons c r2)
        show ?thesis
        proof (cases r2)
          case Nil
          with Cons \<open>r = b # r1\<close> w show ?thesis unfolding e by simp
        next
          case (Cons d r3)
          with \<open>r1 = c # r2\<close> \<open>r = b # r1\<close> w four show ?thesis
            unfolding e
            by (auto simp: byte_in_def split: if_splits)
        qed
      qed
    qed
  qed
qed
lemma utf8_coerce_seq:
  assumes "utf8_width (a # r) = Suc n"
  shows "utf8_coerce (a # take n r @ Y) = a # take n r @ utf8_coerce Y"
proof -
  from utf8_width_Suc [OF assms, of Y]
  have l: "n \<le> length r" and w: "utf8_width (a # take n r @ Y) = Suc n" by simp_all
  from l have t: "take n (take n r @ Y) = take n r" "drop n (take n r @ Y) = Y" by simp_all
  show ?thesis
    by (subst utf8_coerce.simps) (simp only: w nat.case t)
qed

lemma utf8_coerce_repl: "utf8_coerce (replacement_char @ Y) = replacement_char @ utf8_coerce Y"
  by (simp add: replacement_char_def byte_in_def Let_def)

lemma utf8_coerce_idem: "utf8_coerce (utf8_coerce s) = utf8_coerce s"
proof (induction s rule: utf8_coerce.induct)
  case 1
  show ?case by simp
next
  case (2 a rest)
  show ?case
  proof (cases "utf8_width (a # rest)")
    case 0
    then have e: "utf8_coerce (a # rest) = replacement_char @ utf8_coerce rest"
      by (subst utf8_coerce.simps) simp
    from 2(1) [OF 0] show ?thesis
      unfolding e by (simp only: utf8_coerce_repl)
  next
    case (Suc n)
    then have e: "utf8_coerce (a # rest) = a # take n rest @ utf8_coerce (drop n rest)"
      by (subst utf8_coerce.simps) simp
    from 2(2) [OF Suc] show ?thesis
      unfolding e by (simp only: utf8_coerce_seq [OF Suc])
  qed
qed
lemma hex_val_digit: "n < 16 \<Longrightarrow> hex_val (hex_digit n) = Some n"
  by (simp add: hex_val_def hex_digit_def byte_in_def)

lemma hex_val_zero: "hex_val CHR ''0'' = Some 0"
  by (simp add: hex_val_def byte_in_def)

lemma hex4_00:
  assumes "x < 256"
  shows "hex4 CHR ''0'' CHR ''0'' (hex_digit (x div 16)) (hex_digit (x mod 16)) = Some x"
proof -
  from assms have a: "x div 16 < 16" by simp
  have b: "x mod 16 < 16" by simp
  show ?thesis
    unfolding hex4_def by (simp only: hex_val_zero hex_val_digit [OF a] hex_val_digit [OF b]) simp
qed
lemma scan_u_plain:
  assumes "hex4 h1 h2 h3 h4 = Some r" and "r < 0xD800 \<or> 0xE000 \<le> r"
  shows "scan_string (CHR 0x5C # CHR ''u'' # h1 # h2 # h3 # h4 # X)
         = prepend (utf8_encode r) (scan_string X)"
proof -
  from assms(2) have ns: "(0xD800 \<le> r \<and> r < 0xE000) = False" by auto
  show ?thesis
    by (subst scan_string.simps) (simp add: assms(1) ns del: scan_string.simps)
qed

lemma scan_u00:
  assumes "(of_char a :: nat) < 128"
  shows "scan_string (CHR 0x5C # CHR ''u'' # CHR ''0'' # CHR ''0''
           # hex_digit ((of_char a :: nat) div 16) # hex_digit ((of_char a :: nat) mod 16) # X)
         = prepend [a] (scan_string X)"
proof -
  from assms have lt: "(of_char a :: nat) < 256" by simp
  from assms have ns: "(of_char a :: nat) < 0xD800 \<or> 0xE000 \<le> (of_char a :: nat)" by simp
  from assms have e: "utf8_encode (of_char a) = [a]" by (simp add: utf8_encode_def)
  show ?thesis
    by (simp only: scan_u_plain [OF hex4_00 [OF lt] ns] e)
qed
lemma scan_plain1:
  assumes "c \<noteq> CHR 0x22" "c \<noteq> CHR 0x5C" "\<not> (of_char c :: nat) < 0x20"
  shows "scan_string (c # X) = prepend [c] (scan_string X)"
  using assms by simp

lemma scan_simple:
  assumes "simple_escape e = Some ch" "e \<noteq> CHR ''u''"
  shows "scan_string (CHR 0x5C # e # X) = prepend [ch] (scan_string X)"
  using assms by simp

lemma scan_escape_ascii:
  assumes "(of_char a :: nat) < 128"
  shows "scan_string (escape_ascii a @ X) = prepend [a] (scan_string X)"
proof (cases "a = CHR 0x22 \<or> a = CHR 0x5C \<or> a = CHR 0x08 \<or> a = CHR 0x0C \<or> a = CHR 0x0A
           \<or> a = CHR 0x0D \<or> a = CHR 0x09")
  case True
  then show ?thesis
    by (elim disjE) (simp_all add: escape_ascii_def simple_escape_def del: scan_string.simps
         add: scan_simple)
next
  case short: False
  show ?thesis
  proof (cases "(of_char a :: nat) < 0x20 \<or> a = CHR ''<'' \<or> a = CHR ''>'' \<or> a = CHR ''&''")
    case False
    with short have "escape_ascii a = [a]" by (simp add: escape_ascii_def)
    with False short show ?thesis by (simp del: scan_string.simps add: scan_plain1)
  next
    case True
    with short have "escape_ascii a = [CHR 0x5C, CHR ''u'', CHR ''0'', CHR ''0'',
         hex_digit ((of_char a :: nat) div 16), hex_digit ((of_char a :: nat) mod 16)]"
      by (simp add: escape_ascii_def)
    then show ?thesis using scan_u00 [OF assms, of X] by (simp del: scan_string.simps)
  qed
qed
lemma scan_u2028:
  "scan_string ([CHR 0x5C, CHR ''u'', CHR ''2'', CHR ''0'', CHR ''2'', CHR ''8''] @ X)
   = prepend [CHR 0xE2, CHR 0x80, CHR 0xA8] (scan_string X)"
proof -
  have h: "hex4 CHR ''2'' CHR ''0'' CHR ''2'' CHR ''8'' = Some 8232"
    by (simp add: hex4_def hex_val_def byte_in_def)
  have e: "utf8_encode 8232 = [CHR 0xE2, CHR 0x80, CHR 0xA8]"
    unfolding utf8_encode_def by simp code_simp
  have ns: "(8232::nat) < 0xD800 \<or> 0xE000 \<le> (8232::nat)" by simp
  show ?thesis using scan_u_plain [OF h ns, of X] by (simp only: e append.simps)
qed

lemma scan_u2029:
  "scan_string ([CHR 0x5C, CHR ''u'', CHR ''2'', CHR ''0'', CHR ''2'', CHR ''9''] @ X)
   = prepend [CHR 0xE2, CHR 0x80, CHR 0xA9] (scan_string X)"
proof -
  have h: "hex4 CHR ''2'' CHR ''0'' CHR ''2'' CHR ''9'' = Some 8233"
    by (simp add: hex4_def hex_val_def byte_in_def)
  have e: "utf8_encode 8233 = [CHR 0xE2, CHR 0x80, CHR 0xA9]"
    unfolding utf8_encode_def by simp code_simp
  have ns: "(8233::nat) < 0xD800 \<or> 0xE000 \<le> (8233::nat)" by simp
  show ?thesis using scan_u_plain [OF h ns, of X] by (simp only: e append.simps)
qed
lemma scan_replacement:
  "scan_string (replacement_char @ X) = prepend replacement_char (scan_string X)"
  by (rule scan_string_high) (simp add: replacement_char_def)

lemma scan_escape_string:
  "scan_string (escape_string s @ CHR 0x22 # rest) = Some (utf8_coerce s, rest)"
proof (induction s rule: utf8_coerce.induct)
  case 1
  show ?case by simp
next
  case (2 a r)
  show ?case
  proof (cases "utf8_width (a # r)")
    case 0
    then have e: "escape_string (a # r) = replacement_char @ escape_string r"
      and c: "utf8_coerce (a # r) = replacement_char @ utf8_coerce r"
      by (simp_all del: utf8_width.simps)
    show ?thesis
      unfolding e c
      by (simp only: append_assoc scan_replacement 2(1) [OF 0] prepend_Some)
  next
    case (Suc n)
    then have c: "utf8_coerce (a # r) = a # take n r @ utf8_coerce (drop n r)"
      by (simp del: utf8_width.simps)
    note ih = 2(2) [OF Suc]
    show ?thesis
    proof (cases "n = 0")
      case True
      with Suc have lt: "(of_char a :: nat) < 128" by (simp add: utf8_width_one del: utf8_width.simps)
      from Suc True have e: "escape_string (a # r) = escape_ascii a @ escape_string r"
        by (simp del: utf8_width.simps)
      from ih True have ih': "scan_string (escape_string r @ CHR 0x22 # rest) = Some (utf8_coerce r, rest)"
        by simp
      show ?thesis
        unfolding e c using True
        by (simp only: append_assoc scan_escape_ascii [OF lt] ih' prepend_Some) simp
    next
      case False
      with utf8_width_Suc [OF Suc, of "[]"]
      have hi: "\<forall>c\<in>set (a # take n r). 128 \<le> (of_char c :: nat)" by simp
      consider (ls) "a # take n r = [CHR 0xE2, CHR 0x80, CHR 0xA8]"
        | (ps) "a # take n r = [CHR 0xE2, CHR 0x80, CHR 0xA9]"
        | (raw) "a # take n r \<noteq> [CHR 0xE2, CHR 0x80, CHR 0xA8]
                 \<and> a # take n r \<noteq> [CHR 0xE2, CHR 0x80, CHR 0xA9]" by blast
      then show ?thesis
      proof cases
        case ls
        with Suc False have e: "escape_string (a # r) =
            [CHR 0x5C, CHR ''u'', CHR ''2'', CHR ''0'', CHR ''2'', CHR ''8''] @ escape_string (drop n r)"
          by (simp del: utf8_width.simps)
        have c': "utf8_coerce (a # r) = [CHR 0xE2, CHR 0x80, CHR 0xA8] @ utf8_coerce (drop n r)"
          unfolding c using ls by simp
        show ?thesis
          unfolding e c'
          by (simp only: append_assoc scan_u2028 ih prepend_Some)
      next
        case ps
        with Suc False have e: "escape_string (a # r) =
            [CHR 0x5C, CHR ''u'', CHR ''2'', CHR ''0'', CHR ''2'', CHR ''9''] @ escape_string (drop n r)"
          by (simp del: utf8_width.simps)
        have c': "utf8_coerce (a # r) = [CHR 0xE2, CHR 0x80, CHR 0xA9] @ utf8_coerce (drop n r)"
          unfolding c using ps by simp
        show ?thesis
          unfolding e c'
          by (simp only: append_assoc scan_u2029 ih prepend_Some)
      next
        case raw
        with Suc False have e: "escape_string (a # r) = (a # take n r) @ escape_string (drop n r)"
          by (simp del: utf8_width.simps)
        have c': "utf8_coerce (a # r) = (a # take n r) @ utf8_coerce (drop n r)"
          unfolding c by simp
        show ?thesis
          unfolding e c'
          by (simp only: append_assoc scan_string_high [OF hi] ih prepend_Some)
      qed
    qed
  qed
qed

lemma parse_string_quote:
  "parse_string (quote s @ rest) = Some (utf8_coerce s, rest)"
  by (simp add: parse_string_def quote_def scan_escape_string utf8_coerce_idem del: scan_string.simps)
lemma stop_head:
  "stop rest \<Longrightarrow> rest = [] \<or> (\<exists>c cs. rest = c # cs \<and> (c = CHR '','' \<or> c = CHR '']'' \<or> c = CHR ''}''))"
  by (cases rest) (auto simp: stop_def)

lemma stop_takeWhile:
  "stop rest \<Longrightarrow> takeWhile is_digit (s @ rest) = takeWhile is_digit s
     \<and> dropWhile is_digit (s @ rest) = dropWhile is_digit s @ rest"
proof (induction s)
  case Nil
  from stop_head [OF Nil] show ?case by (auto simp: is_digit_def byte_in_def)
next
  case (Cons a s)
  then show ?case by simp
qed

lemma ext_prepend: "ext rest (prepend p r) = prepend p (ext rest r)"
  by (cases r) (auto simp: ext_def prepend_def)

lemma ext_Some: "ext rest (Some (l, t)) = Some (l, t @ rest)"
  by (simp add: ext_def)

lemma ext_None: "ext rest None = None"
  by (simp add: ext_def)

lemma scan_digits_app: "stop rest \<Longrightarrow> scan_digits (s @ rest) = ext rest (scan_digits s)"
  by (simp add: scan_digits_def stop_takeWhile ext_def)

lemma scan_digits_stop: "stop rest \<Longrightarrow> scan_digits rest = None"
  using scan_digits_app [of rest "[]"] by (simp add: scan_digits_def ext_def)

lemma scan_int_app: "stop rest \<Longrightarrow> scan_int (s @ rest) = ext rest (scan_int s)"
proof (cases s)
  case Nil
  assume st: "stop rest"
  from stop_head [OF st] scan_digits_stop [OF st] Nil show ?thesis
    by (auto simp: scan_int_def ext_def)
next
  case (Cons c cs)
  assume st: "stop rest"
  from scan_digits_app [OF st, of "c # cs"] Cons show ?thesis
    by (simp add: scan_int_def ext_Some)
qed

lemma scan_frac_app: "stop rest \<Longrightarrow> scan_frac (s @ rest) = ext rest (scan_frac s)"
proof (cases s)
  case Nil
  assume st: "stop rest"
  from stop_head [OF st] Nil show ?thesis
    by (auto simp: scan_frac_def ext_def)
next
  case (Cons c cs)
  assume st: "stop rest"
  from scan_digits_app [OF st, of cs] Cons show ?thesis
    by (simp add: scan_frac_def ext_Some ext_prepend)
qed

lemma scan_exp_app: "stop rest \<Longrightarrow> scan_exp (s @ rest) = ext rest (scan_exp s)"
proof (cases s)
  case Nil
  assume st: "stop rest"
  from stop_head [OF st] Nil show ?thesis
    by (auto simp: scan_exp_def ext_def)
next
  case (Cons c cs)
  assume st: "stop rest"
  show ?thesis
  proof (cases cs)
    case Nil
    from stop_head [OF st] scan_digits_stop [OF st] Nil Cons show ?thesis
      by (auto simp: scan_exp_def ext_def prepend_def)
  next
    case (Cons g cs1)
    from scan_digits_app [OF st, of cs1] scan_digits_app [OF st, of "g # cs1"] Cons \<open>s = c # cs\<close>
    show ?thesis
      by (simp add: scan_exp_def ext_Some ext_prepend)
  qed
qed

lemma scan_number_app: "stop rest \<Longrightarrow> scan_number (s @ rest) = ext rest (scan_number s)"
proof (cases s)
  case Nil
  assume st: "stop rest"
  from stop_head [OF st] scan_int_app [OF st, of "[]"] Nil show ?thesis
    by (auto simp: scan_number_def ext_def scan_int_def)
next
  case (Cons c cs)
  assume st: "stop rest"
  let ?i = "if c = CHR ''-'' then prepend [c] (scan_int cs) else scan_int (c # cs)"
  have i: "(if c = CHR ''-'' then prepend [c] (scan_int (cs @ rest)) else scan_int (c # cs @ rest))
           = ext rest ?i"
    using scan_int_app [OF st, of cs] scan_int_app [OF st, of "c # cs"]
    by (simp add: ext_prepend)
  show ?thesis
  proof (cases ?i)
    case None
    with i Cons show ?thesis by (simp add: scan_number_def ext_None)
  next
    case (Some p)
    obtain l r1 where p: "p = (l, r1)" by (cases p)
    show ?thesis
    proof (cases "scan_frac r1")
      case None
      with i Cons Some p scan_frac_app [OF st, of r1] show ?thesis
        by (simp add: scan_number_def ext_None ext_Some)
    next
      case fr: (Some q)
      obtain f r2 where q: "q = (f, r2)" by (cases q)
      from i Cons Some p fr q scan_frac_app [OF st, of r1] scan_exp_app [OF st, of r2]
      show ?thesis
        by (simp add: scan_number_def ext_None ext_Some ext_prepend)
    qed
  qed
qed

lemma scan_number_ok:
  "number_ok lit \<Longrightarrow> stop rest \<Longrightarrow> scan_number (lit @ rest) = Some (lit, rest)"
  by (simp add: scan_number_app number_ok_def ext_Some)
lemma not_ws_skip: "\<not> is_ws c \<Longrightarrow> skip_ws (c # cs) = c # cs"
  by (simp add: skip_ws_def)

lemma scan_number_head:
  "scan_number (c # cs) = Some x \<Longrightarrow> c = CHR ''-'' \<or> is_digit c"
  by (auto simp: scan_number_def scan_int_def scan_digits_def is_digit_def byte_in_def
      split: if_splits option.splits)

lemma number_ok_head:
  "number_ok lit \<Longrightarrow> \<exists>c cs. lit = c # cs \<and> (c = CHR ''-'' \<or> is_digit c)"
proof (cases lit)
  case Nil
  assume "number_ok lit"
  with Nil show ?thesis by (simp add: number_ok_def scan_number_def)
next
  case (Cons c cs)
  assume "number_ok lit"
  with Cons scan_number_head [of c cs] show ?thesis by (simp add: number_ok_def)
qed

lemma render_head: "fits d v \<Longrightarrow> \<exists>c cs. render v = c # cs \<and> opens c"
proof (cases v)
  case (JNum lit)
  assume "fits d v"
  with JNum have "number_ok lit" by simp
  from number_ok_head [OF this] JNum show ?thesis
    by (auto simp: opens_def is_ws_def is_digit_def byte_in_def)
qed (auto simp: opens_def is_ws_def quote_def)
lemma reads_backD:
  "reads_back v \<Longrightarrow> need v \<le> n \<Longrightarrow> fits d v \<Longrightarrow> stop rest \<Longrightarrow>
   parse_value n d (render v @ rest) = Some (denote v, rest)"
  by (simp add: reads_back_def)

lemma stop_close: "stop (CHR '']'' # rest)" "stop (CHR ''}'' # rest)" "stop (CHR '','' # rest)" "stop []"
  by (simp_all add: stop_def)

lemma skip_close:
  "skip_ws (CHR '']'' # rest) = CHR '']'' # rest"
  "skip_ws (CHR ''}'' # rest) = CHR ''}'' # rest"
  "skip_ws (CHR '','' # rest) = CHR '','' # rest"
  "skip_ws (CHR '':'' # rest) = CHR '':'' # rest"
  "skip_ws (CHR 0x22 # rest) = CHR 0x22 # rest"
  by (simp_all add: skip_ws_def is_ws_def)

lemma parse_elems_render:
  assumes "\<forall>v\<in>set vs. reads_back v" "vs \<noteq> []"
    "sum_list (map (\<lambda>v. Suc (need v)) vs) \<le> n" "list_all (fits d) vs"
  shows "parse_elems n d (intersperse '','' (map render vs) @ CHR '']'' # rest)
         = Some (map denote vs, rest)"
  using assms
proof (induction vs arbitrary: n)
  case Nil
  then show ?case by simp
next
  case (Cons v vs)
  from Cons.prems(3) obtain m where n: "n = Suc m" and nv: "need v \<le> m"
    and nvs: "sum_list (map (\<lambda>v. Suc (need v)) vs) \<le> m"
    by (cases n) auto
  from Cons.prems have rb: "reads_back v" and fv: "fits d v" by simp_all
  show ?case
  proof (cases vs)
    case Nil
    have pv: "parse_value m d (render v @ CHR '']'' # rest) = Some (denote v, CHR '']'' # rest)"
      by (rule reads_backD [OF rb nv fv stop_close(1)])
    show ?thesis
      unfolding n Nil by (simp add: pv skip_close del: parse_value.simps)
  next
    case (Cons w ws)
    let ?X = "intersperse '','' (map render vs) @ CHR '']'' # rest"
    have pv: "parse_value m d (render v @ CHR '','' # ?X) = Some (denote v, CHR '','' # ?X)"
      by (rule reads_backD [OF rb nv fv stop_close(3)])
    have pe: "parse_elems m d ?X = Some (map denote vs, rest)"
      using Cons.IH [of m] Cons.prems nvs Cons by simp
    have i: "intersperse '','' (map render (v # vs)) @ CHR '']'' # rest = render v @ CHR '','' # ?X"
      using Cons by simp
    show ?thesis
      unfolding n i by (simp add: pv pe skip_close del: parse_value.simps)
  qed
qed
lemma skip_quote: "skip_ws (quote k @ X) = quote k @ X"
  by (simp add: quote_def skip_close)

lemma parse_members_render:
  assumes "\<forall>v\<in>set (map snd ms). reads_back v" "ms \<noteq> []"
    "sum_list (map (\<lambda>v. Suc (need v)) (map snd ms)) \<le> n" "list_all (fits d) (map snd ms)"
  shows "parse_members n d
           (intersperse '','' (map (\<lambda>(k, v). quote k @ '':'' @ render v) ms) @ CHR ''}'' # rest)
         = Some (map (\<lambda>(k, v). (utf8_coerce k, denote v)) ms, rest)"
  using assms
proof (induction ms arbitrary: n)
  case Nil
  then show ?case by simp
next
  case (Cons p ms)
  obtain k v where p: "p = (k, v)" by (cases p)
  from Cons.prems(3) p obtain m where n: "n = Suc m" and nv: "need v \<le> m"
    and nvs: "sum_list (map (\<lambda>v. Suc (need v)) (map snd ms)) \<le> m"
    by (cases n) auto
  from Cons.prems p have rb: "reads_back v" and fv: "fits d v" by simp_all
  show ?case
  proof (cases ms)
    case Nil
    have pv: "parse_value m d (render v @ CHR ''}'' # rest) = Some (denote v, CHR ''}'' # rest)"
      by (rule reads_backD [OF rb nv fv stop_close(2)])
    have i: "intersperse '','' (map (\<lambda>(k, v). quote k @ '':'' @ render v) (p # ms)) @ CHR ''}'' # rest
             = quote k @ CHR '':'' # render v @ CHR ''}'' # rest"
      using Nil p by simp
    show ?thesis
      unfolding n i
      by (simp add: pv skip_close skip_quote parse_string_quote Nil p del: parse_value.simps)
  next
    case (Cons q qs)
    let ?X = "intersperse '','' (map (\<lambda>(k, v). quote k @ CHR '':'' # render v) ms) @ CHR ''}'' # rest"
    have pv: "parse_value m d (render v @ CHR '','' # ?X) = Some (denote v, CHR '','' # ?X)"
      by (rule reads_backD [OF rb nv fv stop_close(3)])
    have pe: "parse_members m d ?X = Some (map (\<lambda>(k, v). (utf8_coerce k, denote v)) ms, rest)"
      using Cons.IH [of m] Cons.prems nvs Cons by simp
    have i: "intersperse '','' (map (\<lambda>(k, v). quote k @ '':'' @ render v) (p # ms)) @ CHR ''}'' # rest
             = quote k @ CHR '':'' # render v @ CHR '','' # ?X"
      using Cons p by simp
    show ?thesis
      unfolding n i
      by (simp add: pv pe skip_close skip_quote parse_string_quote p del: parse_value.simps)
  qed
qed
lemma intersperse_head:
  "xs \<noteq> [] \<Longrightarrow> hd xs = c # cs \<Longrightarrow> \<exists>cs'. intersperse sep xs = c # cs'"
  by (cases "(sep, xs)" rule: intersperse.cases) auto

lemma opens_skip: "opens c \<Longrightarrow> skip_ws (c # cs) = c # cs"
  by (simp add: opens_def skip_ws_def)

lemma reads_back_atoms:
  "reads_back JNull" "reads_back (JBool b)" "reads_back (JStr s)"
proof -
  show "reads_back JNull"
    unfolding reads_back_def
  proof (intro allI impI)
    fix n d rest assume "need JNull \<le> n"
    then obtain m where "n = Suc m" by (cases n) auto
    then show "parse_value n d (render JNull @ rest) = Some (denote JNull, rest)"
      by (simp add: skip_ws_def is_ws_def scan_literal_def)
  qed
  show "reads_back (JBool b)"
    unfolding reads_back_def
  proof (intro allI impI)
    fix n d rest assume "need (JBool b) \<le> n"
    then obtain m where "n = Suc m" by (cases n) auto
    then show "parse_value n d (render (JBool b) @ rest) = Some (denote (JBool b), rest)"
      by (simp add: skip_ws_def is_ws_def scan_literal_def)
  qed
  show "reads_back (JStr s)"
    unfolding reads_back_def
  proof (intro allI impI)
    fix n d rest assume "need (JStr s) \<le> n"
    then obtain m where n: "n = Suc m" by (cases n) auto
    have q: "quote s @ rest = CHR 0x22 # escape_string s @ CHR 0x22 # rest"
      by (simp add: quote_def)
    have p: "parse_string (CHR 0x22 # escape_string s @ CHR 0x22 # rest) = Some (utf8_coerce s, rest)"
      using parse_string_quote [of s rest] by (simp only: q)
    show "parse_value n d (render (JStr s) @ rest) = Some (denote (JStr s), rest)"
      unfolding n by (simp add: q p skip_close)
  qed
qed

lemma reads_back_num: "reads_back (JNum lit)"
  unfolding reads_back_def
proof (intro allI impI)
  fix n d rest assume "need (JNum lit) \<le> n" and f: "fits d (JNum lit)" and st: "stop rest"
  then obtain m where n: "n = Suc m" by (cases n) auto
  from f have ok: "number_ok lit" by simp
  from number_ok_head [OF ok] obtain c cs where l: "lit = c # cs" and h: "c = CHR ''-'' \<or> is_digit c"
    by blast
  from h have sk: "skip_ws (c # cs @ rest) = c # cs @ rest"
    by (auto simp: skip_ws_def is_ws_def is_digit_def byte_in_def)
  from h have ne: "c \<noteq> CHR ''{''" "c \<noteq> CHR ''[''" "c \<noteq> CHR 0x22" "c \<noteq> CHR ''t''" "c \<noteq> CHR ''f''"
    "c \<noteq> CHR ''n''"
    by (auto simp: is_digit_def byte_in_def)
  have sn: "scan_number (c # cs @ rest) = Some (c # cs, rest)"
    using scan_number_ok [OF ok st] l by simp
  show "parse_value n d (render (JNum lit) @ rest) = Some (denote (JNum lit), rest)"
    unfolding n by (simp add: l sk ne sn)
qed
lemma reads_back_arr:
  assumes ih: "\<forall>v\<in>set vs. reads_back v"
  shows "reads_back (JArr vs)"
  unfolding reads_back_def
proof (intro allI impI)
  fix n d rest assume nd: "need (JArr vs) \<le> n" and f: "fits d (JArr vs)" and st: "stop rest"
  from nd obtain m where n: "n = Suc m" and s: "sum_list (map (\<lambda>v. Suc (need v)) vs) \<le> m"
    by (cases n) auto
  from f have d: "\<not> 10000 \<le> d" and fs: "list_all (fits (Suc d)) vs" by simp_all
  let ?t = "intersperse '','' (map render vs) @ CHR '']'' # rest"
  have r: "render (JArr vs) @ rest = CHR ''['' # ?t" by simp
  have sk: "\<And>X. skip_ws (CHR ''['' # X) = CHR ''['' # X" by (simp add: skip_ws_def is_ws_def)
  show "parse_value n d (render (JArr vs) @ rest) = Some (denote (JArr vs), rest)"
  proof (cases "vs = []")
    case True
    show ?thesis
      unfolding n r by (subst parse_value.simps) (simp add: sk d True skip_close)
  next
    case False
    then obtain v ws where vs: "vs = v # ws" by (cases vs) auto
    with fs have "fits (Suc d) v" by simp
    from render_head [OF this] obtain c cs where rv: "render v = c # cs" and o: "opens c" by blast
    from intersperse_head [of "map render vs" c cs "'',''"] False rv vs
    obtain cs' where i: "intersperse '','' (map render vs) = c # cs'" by auto
    have t: "?t = c # cs' @ CHR '']'' # rest" by (simp add: i)
    from o have c: "c \<noteq> CHR '']''" by (simp add: opens_def)
    have pe: "parse_elems m (Suc d) ?t = Some (map denote vs, rest)"
      by (rule parse_elems_render [OF ih False s fs])
    have pe': "parse_elems m (Suc d) (c # cs' @ CHR '']'' # rest) = Some (map denote vs, rest)"
      using pe by (simp only: t)
    show ?thesis
      unfolding n r
      by (subst parse_value.simps) (simp add: sk d t opens_skip [OF o] c pe' del: parse_elems.simps)
  qed
qed

lemma reads_back_obj:
  assumes ih: "\<forall>v\<in>set (map snd ms). reads_back v"
  shows "reads_back (JObj ms)"
  unfolding reads_back_def
proof (intro allI impI)
  fix n d rest assume nd: "need (JObj ms) \<le> n" and f: "fits d (JObj ms)" and st: "stop rest"
  from nd obtain m where n: "n = Suc m"
    and s: "sum_list (map (\<lambda>v. Suc (need v)) (map snd ms)) \<le> m"
    by (cases n) auto
  from f have d: "\<not> 10000 \<le> d" and fs: "list_all (fits (Suc d)) (map snd ms)" by simp_all
  let ?t = "intersperse '','' (map (\<lambda>(k, v). quote k @ '':'' @ render v) ms) @ CHR ''}'' # rest"
  have r: "render (JObj ms) @ rest = CHR ''{'' # ?t" by simp
  have sk: "\<And>X. skip_ws (CHR ''{'' # X) = CHR ''{'' # X" by (simp add: skip_ws_def is_ws_def)
  show "parse_value n d (render (JObj ms) @ rest) = Some (denote (JObj ms), rest)"
  proof (cases "ms = []")
    case True
    show ?thesis
      unfolding n r by (subst parse_value.simps) (simp add: sk d True skip_close)
  next
    case False
    then obtain k v ws where ms: "ms = (k, v) # ws" by (cases ms) auto
    have "hd (map (\<lambda>(k, v). quote k @ '':'' @ render v) ms)
            = CHR 0x22 # escape_string k @ CHR 0x22 # CHR '':'' # render v"
      by (simp add: ms quote_def)
    from intersperse_head [OF _ this, of "'',''"] False
    obtain cs' where i: "intersperse '','' (map (\<lambda>(k, v). quote k @ '':'' @ render v) ms) = CHR 0x22 # cs'"
      by auto
    have t: "?t = CHR 0x22 # cs' @ CHR ''}'' # rest" using i by simp
    have pe: "parse_members m (Suc d) ?t = Some (map (\<lambda>(k, v). (utf8_coerce k, denote v)) ms, rest)"
      by (rule parse_members_render [OF ih False s fs])
    have pe': "parse_members m (Suc d) (CHR 0x22 # cs' @ CHR ''}'' # rest)
                 = Some (map (\<lambda>(k, v). (utf8_coerce k, denote v)) ms, rest)"
      using pe by (simp only: t)
    show ?thesis
      unfolding n r t
      by (subst parse_value.simps) (simp add: sk d skip_close pe' del: parse_members.simps)
  qed
qed

lemma reads_back_all: "reads_back v"
proof (induction v)
  case (JArr vs)
  then show ?case by (intro reads_back_arr) simp
next
  case (JObj ms)
  have "\<forall>v\<in>set (map snd ms). reads_back v"
  proof
    fix v assume "v \<in> set (map snd ms)"
    then obtain p where p: "p \<in> set ms" "v = snd p" by auto
    show "reads_back v"
      unfolding p(2) by (rule JObj [OF p(1) Basic_BNFs.snds.intros])
  qed
  then show ?case by (rule reads_back_obj)
qed (simp_all add: reads_back_atoms reads_back_num)
lemma intersperse_length:
  "sum_list (map (\<lambda>x. 2 * length x + 2) xs) \<le> 2 * length (intersperse '','' xs) + 2"
  by (induction "'',''" xs rule: intersperse.induct) simp_all

lemma need_sum:
  assumes "\<forall>v\<in>set vs. need v \<le> 2 * length (f v) + 1"
  shows "sum_list (map (\<lambda>v. Suc (need v)) vs) \<le> sum_list (map (\<lambda>x. 2 * length x + 2) (map f vs))"
  using assms by (induction vs) auto

lemma need_length: "need v \<le> 2 * length (render v) + 1"
proof (induction v)
  case (JArr vs)
  then have "\<forall>v\<in>set vs. need v \<le> 2 * length (render v) + 1" by simp
  from need_sum [OF this] intersperse_length [of "map render vs"]
  show ?case by simp
next
  case (JObj ms)
  have a: "\<forall>p\<in>set ms. need (snd p) \<le> 2 * length ((\<lambda>(k, v). quote k @ '':'' @ render v) p) + 1"
  proof
    fix p assume p: "p \<in> set ms"
    from JObj [OF p Basic_BNFs.snds.intros] show
      "need (snd p) \<le> 2 * length ((\<lambda>(k, v). quote k @ '':'' @ render v) p) + 1"
      by (cases p) simp
  qed
  have "sum_list (map (\<lambda>v. Suc (need v)) (map snd ms))
        \<le> sum_list (map (\<lambda>x. 2 * length x + 2) (map (\<lambda>(k, v). quote k @ '':'' @ render v) ms))"
    using a by (induction ms) auto
  with intersperse_length [of "map (\<lambda>(k, v). quote k @ '':'' @ render v) ms"]
  show ?case by simp
qed simp_all

lemma parse_render: "json_ok v \<Longrightarrow> parse_json (render v) = Inr (denote v)"
proof -
  assume ok: "json_ok v"
  have n: "need v \<le> 2 * length (render v) + 2" using need_length [of v] by simp
  from ok have f: "fits 0 v" by (simp add: json_ok_def)
  have "parse_value (2 * length (render v) + 2) 0 (render v @ []) = Some (denote v, [])"
    by (rule reads_backD [OF reads_back_all n f stop_close(4)])
  then show ?thesis by (simp add: parse_json_def skip_ws_def)
qed

lemma json_Unmarshal_render:
  "json_ok v \<Longrightarrow> json_Unmarshal dec (Some (render v)) x = dec (denote v) x"
  by (simp add: json_Unmarshal_def parse_render)

section \<open>Round trips\<close>





section \<open>Decoding an encoding, field by field\<close>











lemma step_bytes_omit:
  assumes "store tag = store_field dec_bytes get upd"
    and "b \<noteq> Some []"
    and "upd None acc = acc"
  shows "dec_members store (member_omitempty (len_slice b = 0) tag (denote (enc_bytes b)) @ rest) acc
           = dec_members store rest (upd b acc)"
  using assms
  by (cases b) (simp_all add: member_omitempty_def store_field_def dec_bytes_enc_bytes len_slice_def)


lemma step_raw:
  assumes "store tag = store_field dec_raw get upd"
    and "case m of None \<Rightarrow> True | Some v \<Rightarrow> denote v = v"
    and "upd None acc = acc"
  shows "dec_members store (member_omitempty (m = None) tag (denote (enc_raw m)) @ rest) acc
           = dec_members store rest (upd m acc)"
  using assms
  by (cases m) (simp_all add: member_omitempty_def store_field_def enc_raw_def dec_raw_def)

lemmas step_bytes_omit_last = step_bytes_omit [where rest = "[]", unfolded append_Nil2]
lemmas step_raw_last = step_raw [where rest = "[]", unfolded append_Nil2]

section \<open>Round trips of the request taxonomy\<close>








lemma PortIDQuery_roundtrip:
  "PortIDQuery_dec (denote (PortIDQuery_json y)) PortIDQuery_zero = Inr y \<and> denote (PortIDQuery_json y) \<noteq> JNull"
  by (simp add: PortIDQuery_dec_def PortIDQuery_json_def dec_struct_def)




lemma AllValidatorsQuery_roundtrip:
  "AllValidatorsQuery_dec (denote (AllValidatorsQuery_json y)) AllValidatorsQuery_zero = Inr y \<and> denote (AllValidatorsQuery_json y) \<noteq> JNull"
  by (simp add: AllValidatorsQuery_dec_def AllValidatorsQuery_json_def dec_struct_def)




lemma BondedDenomQuery_roundtrip:
  "BondedDenomQuery_dec (denote (BondedDenomQuery_json y)) BondedDenomQuery_zero = Inr y \<and> denote (BondedDenomQuery_json y) \<noteq> JNull"
  by (simp add: BondedDenomQuery_dec_def BondedDenomQuery_json_def dec_struct_def)
















section \<open>The round trip as a whole\<close>




section \<open>Emptiness of a range whose bounds are not in order\<close>

lemma bytes_less_bound:
  "\<not> bytes_less k s \<Longrightarrow> bytes_less k e \<Longrightarrow> bytes_less s e"
proof (induction s e arbitrary: k rule: bytes_less.induct)
  case 1
  then show ?case by (cases k) simp_all
next
  case (2 b bs)
  then show ?case by simp
next
  case (3 a as)
  then show ?case by (cases k) simp_all
next
  case (4 a as b bs)
  then show ?case
  proof (cases k)
    case Nil
    with 4 show ?thesis by simp
  next
    case (Cons c cs)
    with 4 show ?thesis by (auto simp: not_less)
  qed
qed

lemma in_range_empty:
  "\<not> bytes_less s e \<Longrightarrow> \<not> in_range (Some s) (Some e) k"
  using bytes_less_bound [of k s e] by (auto simp: in_range_def)

text \<open>
  C9. When \<open>start\<close> is not strictly before \<open>end\<close> (lexicographically, as the comment on
  \<^verbatim>\<open>RawRangeQuery.Start\<close> has it), the scan returns no entries and no \<open>next_key\<close>, in ascending
  and in descending order alike, whatever the key space and the limit.
\<close>

theorem raw_range_scan_empty:
  "\<not> bytes_less s e \<Longrightarrow>
     raw_range_scan store (Some s) (Some e) limit False = ([], None)
     \<and> raw_range_scan store (Some s) (Some e) limit True = ([], None)"
  by (simp add: raw_range_scan_def in_range_empty)

theorem raw_range_scan_empty_witness:
  "\<not> bytes_less ''a'' ''a''
   \<and> raw_range_scan [(''a'', ''1''), (''b'', ''2'')] (Some ''a'') (Some ''a'') 10 False = ([], None)
   \<and> raw_range_scan [(''a'', ''1''), (''b'', ''2'')] (Some ''a'') (Some ''a'') 10 True = ([], None)"
proof -
  have h: "\<not> bytes_less ''a'' ''a''" by simp
  from raw_range_scan_empty [OF h, of "[(''a'', ''1''), (''b'', ''2'')]" 10] h show ?thesis by simp
qed

section \<open>Unions on the wire\<close>

lemmas observe_eval = branches_def keys_of_def set_fields_def member_def member_omitempty_def

lemma branches_QueryResult:
  "branches (QueryResult_json q)
     = (if len_slice (Ok q) = 0 \<and> length (Err q) = 0 then 1
        else set_fields [len_slice (Ok q) \<noteq> 0, length (Err q) \<noteq> 0])"
  by (simp add: QueryResult_json_def queryResultImpl_json_def observe_eval)

lemma branches_QuerierResult:
  "branches (QuerierResult_json SystemError_json r) = set_fields [qr_Ok r \<noteq> None, qr_Err r \<noteq> None]"
  by (simp add: QuerierResult_json_def observe_eval)

lemma branches_QueryRequest:
  "branches (QueryRequest_json pc x)
     = set_fields [Bank x \<noteq> None, Custom x \<noteq> None, IBC x \<noteq> None, Staking x \<noteq> None,
                   Distribution x \<noteq> None, Stargate x \<noteq> None, Grpc x \<noteq> None, Wasm x \<noteq> None]"
  by (simp add: QueryRequest_json_def observe_eval)

lemma branches_BankQuery:
  "branches (BankQuery_json pc x)
     = set_fields [BankQuery_Supply x \<noteq> None, BankQuery_Balance x \<noteq> None,
                   BankQuery_AllBalances x \<noteq> None, BankQuery_DenomMetadata x \<noteq> None,
                   BankQuery_AllDenomMetadata x \<noteq> None]"
  by (simp add: BankQuery_json_def observe_eval)

lemma branches_IBCQuery:
  "branches (IBCQuery_json x)
     = set_fields [IBCQuery_PortID x \<noteq> None, IBCQuery_ListChannels x \<noteq> None,
                   IBCQuery_Channel x \<noteq> None]"
  by (simp add: IBCQuery_json_def observe_eval)

lemma branches_StakingQuery:
  "branches (StakingQuery_json x)
     = set_fields [StakingQuery_AllValidators x \<noteq> None, StakingQuery_Validator x \<noteq> None,
                   StakingQuery_AllDelegations x \<noteq> None, StakingQuery_Delegation x \<noteq> None,
                   StakingQuery_BondedDenom x \<noteq> None]"
  by (simp add: StakingQuery_json_def observe_eval)

lemma branches_DistributionQuery:
  "branches (DistributionQuery_json x)
     = set_fields [DistributionQuery_DelegatorWithdrawAddress x \<noteq> None,
                   DistributionQuery_DelegationRewards x \<noteq> None,
                   DistributionQuery_DelegationTotalRewards x \<noteq> None,
                   DistributionQuery_DelegatorValidators x \<noteq> None]"
  by (simp add: DistributionQuery_json_def observe_eval)

lemma branches_WasmQuery:
  "branches (WasmQuery_json x)
     = set_fields [WasmQuery_Smart x \<noteq> None, WasmQuery_Raw x \<noteq> None,
                   WasmQuery_ContractInfo x \<noteq> None, WasmQuery_CodeInfo x \<noteq> None,
                   WasmQuery_RawRange x \<noteq> None]"
  by (simp add: WasmQuery_json_def observe_eval)

text \<open>
  C2, as the claim states it, fails on the code: a \<^verbatim>\<open>QueryResult\<close> with both \<^verbatim>\<open>Ok\<close> and \<^verbatim>\<open>Err\<close>
  set is written with both branches, and so is a \<^verbatim>\<open>QueryRequest\<close> with two categories set.
\<close>

theorem encode_two_branches:
  "QueryResult_MarshalJSON \<lparr>Ok = Some ''x'', Err = ''e''\<rparr>
     = Inr ''{\"ok\":\"eA==\",\"error\":\"e\"}''
   \<and> render (QueryRequest_json
               \<lparr>pr_zero = (), pr_json = (\<lambda>p. JObj []), pr_dec = (\<lambda>v p. Inr p)\<rparr>
               \<lparr>Bank = Some BankQuery_zero, Custom = None, IBC = None, Staking = None,
                Distribution = None, Stargate = None, Grpc = None, Wasm = Some WasmQuery_zero\<rparr>)
     = ''{\"bank\":{},\"wasm\":{}}''"
proof (intro conjI)
  show "QueryResult_MarshalJSON \<lparr>Ok = Some ''x'', Err = ''e''\<rparr>
     = Inr ''{\"ok\":\"eA==\",\"error\":\"e\"}''"
    by code_simp
  show "render (QueryRequest_json
               \<lparr>pr_zero = (), pr_json = (\<lambda>p. JObj []), pr_dec = (\<lambda>v p. Inr p)\<rparr>
               \<lparr>Bank = Some BankQuery_zero, Custom = None, IBC = None, Staking = None,
                Distribution = None, Stargate = None, Grpc = None, Wasm = Some WasmQuery_zero\<rparr>)
     = ''{\"bank\":{},\"wasm\":{}}''"
    by code_simp
qed

text \<open>
  C2, amended. The encoder does not arbitrate: the encoding of a union value has one branch
  for each field that is set and none for the others, at every union level; only the
  \<^verbatim>\<open>QueryResult\<close> with nothing set gets the one branch \<^verbatim>\<open>ok\<close>. So the wire object has at most
  one branch exactly when at most one field of the value is set.
\<close>

theorem encode_one_branch_per_set_field:
  "branches (QueryResult_json q)
     = (if len_slice (Ok q) = 0 \<and> length (Err q) = 0 then 1
        else set_fields [len_slice (Ok q) \<noteq> 0, length (Err q) \<noteq> 0])
   \<and> branches (QuerierResult_json SystemError_json r)
       = set_fields [qr_Ok r \<noteq> None, qr_Err r \<noteq> None]
   \<and> branches (QueryRequest_json pc x)
       = set_fields [Bank x \<noteq> None, Custom x \<noteq> None, IBC x \<noteq> None, Staking x \<noteq> None,
                     Distribution x \<noteq> None, Stargate x \<noteq> None, Grpc x \<noteq> None, Wasm x \<noteq> None]
   \<and> branches (BankQuery_json pc b)
       = set_fields [BankQuery_Supply b \<noteq> None, BankQuery_Balance b \<noteq> None,
                     BankQuery_AllBalances b \<noteq> None, BankQuery_DenomMetadata b \<noteq> None,
                     BankQuery_AllDenomMetadata b \<noteq> None]
   \<and> branches (IBCQuery_json i)
       = set_fields [IBCQuery_PortID i \<noteq> None, IBCQuery_ListChannels i \<noteq> None,
                     IBCQuery_Channel i \<noteq> None]
   \<and> branches (StakingQuery_json s)
       = set_fields [StakingQuery_AllValidators s \<noteq> None, StakingQuery_Validator s \<noteq> None,
                     StakingQuery_AllDelegations s \<noteq> None, StakingQuery_Delegation s \<noteq> None,
                     StakingQuery_BondedDenom s \<noteq> None]
   \<and> branches (DistributionQuery_json d)
       = set_fields [DistributionQuery_DelegatorWithdrawAddress d \<noteq> None,
                     DistributionQuery_DelegationRewards d \<noteq> None,
                     DistributionQuery_DelegationTotalRewards d \<noteq> None,
                     DistributionQuery_DelegatorValidators d \<noteq> None]
   \<and> branches (WasmQuery_json w)
       = set_fields [WasmQuery_Smart w \<noteq> None, WasmQuery_Raw w \<noteq> None,
                     WasmQuery_ContractInfo w \<noteq> None, WasmQuery_CodeInfo w \<noteq> None,
                     WasmQuery_RawRange w \<noteq> None]"
  by (simp only: branches_QueryResult branches_QuerierResult branches_QueryRequest
        branches_BankQuery branches_IBCQuery branches_StakingQuery branches_DistributionQuery
        branches_WasmQuery simp_thms)

theorem encode_one_branch_per_set_field_witness:
  "branches (QueryResult_json \<lparr>Ok = Some ''x'', Err = []\<rparr>) = 1
   \<and> branches (QueryResult_json \<lparr>Ok = Some ''x'', Err = ''e''\<rparr>) = 2
   \<and> branches (WasmQuery_json (WasmQuery_zero\<lparr>WasmQuery_Raw := Some RawQuery_zero\<rparr>)) = 1"
proof -
  have a: "branches (QueryResult_json \<lparr>Ok = Some ''x'', Err = []\<rparr>) = 1"
    using encode_one_branch_per_set_field
            [where q = "\<lparr>Ok = Some ''x'', Err = []\<rparr>", THEN conjunct1]
    by (simp add: len_slice_def set_fields_def)
  have b: "branches (QueryResult_json \<lparr>Ok = Some ''x'', Err = ''e''\<rparr>) = 2"
    using encode_one_branch_per_set_field
            [where q = "\<lparr>Ok = Some ''x'', Err = ''e''\<rparr>", THEN conjunct1]
    by (simp add: len_slice_def set_fields_def)
  have c: "branches (WasmQuery_json (WasmQuery_zero\<lparr>WasmQuery_Raw := Some RawQuery_zero\<rparr>)) = 1"
    using encode_one_branch_per_set_field
            [where w = "WasmQuery_zero\<lparr>WasmQuery_Raw := Some RawQuery_zero\<rparr>",
             THEN conjunct2, THEN conjunct2, THEN conjunct2, THEN conjunct2, THEN conjunct2,
             THEN conjunct2, THEN conjunct2]
    by (simp add: set_fields_def WasmQuery_zero_def)
  from a b c show ?thesis by simp
qed

section \<open>Decoding a union\<close>

text \<open>
  C3. The claim holds that decoding a wire value with two populated branches either rejects
  it or resolves it to one branch, and never yields a value with several branches set; the
  comment on \<^verbatim>\<open>QueryRequest\<close> (line 101) says that exactly one of the fields should be set.
  The code does neither: \<^verbatim>\<open>RustQuery\<close> decodes with \<^verbatim>\<open>json.Unmarshal\<close> into the struct of
  optional fields and nothing checks the result. The bytes \<^verbatim>\<open>{"bank":{},"wasm":{}}\<close> decode
  without error to a \<^verbatim>\<open>QueryRequest\<close> with both \<^verbatim>\<open>Bank\<close> and \<^verbatim>\<open>Wasm\<close> non-nil; one level
  down \<^verbatim>\<open>{"wasm":{"smart":{},"raw":{}}}\<close> decodes to a \<^verbatim>\<open>WasmQuery\<close> with both \<^verbatim>\<open>Smart\<close> and
  \<^verbatim>\<open>Raw\<close> non-nil; and \<^verbatim>\<open>RustQuery\<close> hands the request with two branches to the querier
  (here one that answers \<^verbatim>\<open>both\<close> when it sees \<^verbatim>\<open>Bank\<close> and \<^verbatim>\<open>Wasm\<close> set) and returns its
  answer as a success.
\<close>

theorem decode_two_branches:
  "json_Unmarshal
     (QueryRequest_dec \<lparr>pr_zero = (), pr_json = (\<lambda>p. JObj []), pr_dec = (\<lambda>v p. Inr p)\<rparr>)
     (Some ''{\"bank\":{},\"wasm\":{}}'') QueryRequest_zero
   = Inr \<lparr>Bank = Some BankQuery_zero, Custom = None, IBC = None, Staking = None,
          Distribution = None, Stargate = None, Grpc = None, Wasm = Some WasmQuery_zero\<rparr>
   \<and> json_Unmarshal
       (QueryRequest_dec \<lparr>pr_zero = (), pr_json = (\<lambda>p. JObj []), pr_dec = (\<lambda>v p. Inr p)\<rparr>)
       (Some ''{\"wasm\":{\"smart\":{},\"raw\":{}}}'') QueryRequest_zero
     = Inr \<lparr>Bank = None, Custom = None, IBC = None, Staking = None,
            Distribution = None, Stargate = None, Grpc = None,
            Wasm = Some \<lparr>WasmQuery_Smart = Some SmartQuery_zero,
                         WasmQuery_Raw = Some RawQuery_zero,
                         WasmQuery_ContractInfo = None, WasmQuery_CodeInfo = None,
                         WasmQuery_RawRange = None\<rparr>\<rparr>
   \<and> RustQuery (\<lambda>e. None) (\<lambda>e. ''error'')
       (\<lambda>b. json_Unmarshal
               (QueryRequest_dec \<lparr>pr_zero = (), pr_json = (\<lambda>p. JObj []), pr_dec = (\<lambda>v p. Inr p)\<rparr>)
               b QueryRequest_zero)
       (\<lambda>r g. (if Bank r \<noteq> None \<and> Wasm r \<noteq> None then Some ''both'' else Some ''one'', None))
       (Some ''{\"bank\":{},\"wasm\":{}}'') 0
     = \<lparr>qr_Ok = Some \<lparr>Ok = Some ''both'', Err = []\<rparr>, qr_Err = None\<rparr>"
proof (intro conjI)
  show "json_Unmarshal
     (QueryRequest_dec \<lparr>pr_zero = (), pr_json = (\<lambda>p. JObj []), pr_dec = (\<lambda>v p. Inr p)\<rparr>)
     (Some ''{\"bank\":{},\"wasm\":{}}'') QueryRequest_zero
   = Inr \<lparr>Bank = Some BankQuery_zero, Custom = None, IBC = None, Staking = None,
          Distribution = None, Stargate = None, Grpc = None, Wasm = Some WasmQuery_zero\<rparr>"
    by code_simp
  show "json_Unmarshal
       (QueryRequest_dec \<lparr>pr_zero = (), pr_json = (\<lambda>p. JObj []), pr_dec = (\<lambda>v p. Inr p)\<rparr>)
       (Some ''{\"wasm\":{\"smart\":{},\"raw\":{}}}'') QueryRequest_zero
     = Inr \<lparr>Bank = None, Custom = None, IBC = None, Staking = None,
            Distribution = None, Stargate = None, Grpc = None,
            Wasm = Some \<lparr>WasmQuery_Smart = Some SmartQuery_zero,
                         WasmQuery_Raw = Some RawQuery_zero,
                         WasmQuery_ContractInfo = None, WasmQuery_CodeInfo = None,
                         WasmQuery_RawRange = None\<rparr>\<rparr>"
    by code_simp
  show "RustQuery (\<lambda>e. None) (\<lambda>e. ''error'')
       (\<lambda>b. json_Unmarshal
               (QueryRequest_dec \<lparr>pr_zero = (), pr_json = (\<lambda>p. JObj []), pr_dec = (\<lambda>v p. Inr p)\<rparr>)
               b QueryRequest_zero)
       (\<lambda>r g. (if Bank r \<noteq> None \<and> Wasm r \<noteq> None then Some ''both'' else Some ''one'', None))
       (Some ''{\"bank\":{},\"wasm\":{}}'') 0
     = \<lparr>qr_Ok = Some \<lparr>Ok = Some ''both'', Err = []\<rparr>, qr_Err = None\<rparr>"
    by code_simp
qed

section \<open>Fields that are left out, and fields that are not\<close>

text \<open>
  C8, as the claim states it, fails on the code: the field of \<^verbatim>\<open>ValidatorResponse\<close> has no
  \<^verbatim>\<open>omitempty\<close> (the source says that it ``serializes to null when unset''), and neither has
  \<^verbatim>\<open>next_key\<close> of \<^verbatim>\<open>RawRangeResponse\<close>.
\<close>

theorem encode_null_placeholder:
  "render (ValidatorResponse_json \<lparr>ValidatorResponse_Validator = None\<rparr>)
     = ''{\"validator\":null}''
   \<and> render (RawRangeResponse_json (\<lambda>d. JArr [])
               \<lparr>RawRangeResponse_Data = (), RawRangeResponse_NextKey = None\<rparr>)
     = ''{\"data\":[],\"next_key\":null}''"
proof (intro conjI)
  show "render (ValidatorResponse_json \<lparr>ValidatorResponse_Validator = None\<rparr>)
     = ''{\"validator\":null}''"
    by code_simp
  show "render (RawRangeResponse_json (\<lambda>d. JArr [])
               \<lparr>RawRangeResponse_Data = (), RawRangeResponse_NextKey = None\<rparr>)
     = ''{\"data\":[],\"next_key\":null}''"
    by code_simp
qed

text \<open>
  C8, amended. A field tagged \<^verbatim>\<open>omitempty\<close> is left out of the encoding when it is empty (a
  nil pointer, a slice or a string of length 0) and is written otherwise; a field without
  the tag is always written. So every union writes the branches that are set and no others,
  \<^verbatim>\<open>RawRangeQuery\<close> leaves out an empty \<open>start\<close> and \<open>end\<close>, \<^verbatim>\<open>ListChannelsQuery\<close> and
  \<^verbatim>\<open>ChannelQuery\<close> an empty \<open>port_id\<close>, \<^verbatim>\<open>AllDenomMetadataQuery\<close> a nil \<open>pagination\<close>,
  \<^verbatim>\<open>ContractInfoResponse\<close> an empty \<open>admin\<close>, \<open>ibc_port\<close> and \<open>ibc2_port\<close>; while
  \<^verbatim>\<open>ValidatorResponse\<close> writes \<open>validator\<close> and \<^verbatim>\<open>RawRangeResponse\<close> writes \<open>next_key\<close> as
  \<^verbatim>\<open>null\<close> when they are nil.
\<close>

theorem encode_omitempty:
  "keys_of (QueryRequest_json pc x)
     = (if Bank x = None then [] else [''bank'']) @ (if Custom x = None then [] else [''custom''])
       @ (if IBC x = None then [] else [''ibc'']) @ (if Staking x = None then [] else [''staking''])
       @ (if Distribution x = None then [] else [''distribution''])
       @ (if Stargate x = None then [] else [''stargate''])
       @ (if Grpc x = None then [] else [''grpc'']) @ (if Wasm x = None then [] else [''wasm''])
   \<and> keys_of (BankQuery_json pc b)
     = (if BankQuery_Supply b = None then [] else [''supply''])
       @ (if BankQuery_Balance b = None then [] else [''balance''])
       @ (if BankQuery_AllBalances b = None then [] else [''all_balances''])
       @ (if BankQuery_DenomMetadata b = None then [] else [''denom_metadata''])
       @ (if BankQuery_AllDenomMetadata b = None then [] else [''all_denom_metadata''])
   \<and> keys_of (IBCQuery_json i)
     = (if IBCQuery_PortID i = None then [] else [''port_id''])
       @ (if IBCQuery_ListChannels i = None then [] else [''list_channels''])
       @ (if IBCQuery_Channel i = None then [] else [''channel''])
   \<and> keys_of (StakingQuery_json s)
     = (if StakingQuery_AllValidators s = None then [] else [''all_validators''])
       @ (if StakingQuery_Validator s = None then [] else [''validator''])
       @ (if StakingQuery_AllDelegations s = None then [] else [''all_delegations''])
       @ (if StakingQuery_Delegation s = None then [] else [''delegation''])
       @ (if StakingQuery_BondedDenom s = None then [] else [''bonded_denom''])
   \<and> keys_of (DistributionQuery_json d)
     = (if DistributionQuery_DelegatorWithdrawAddress d = None then []
        else [''delegator_withdraw_address''])
       @ (if DistributionQuery_DelegationRewards d = None then [] else [''delegation_rewards''])
       @ (if DistributionQuery_DelegationTotalRewards d = None then []
          else [''delegation_total_rewards''])
       @ (if DistributionQuery_DelegatorValidators d = None then [] else [''delegator_validators''])
   \<and> keys_of (WasmQuery_json w)
     = (if WasmQuery_Smart w = None then [] else [''smart''])
       @ (if WasmQuery_Raw w = None then [] else [''raw''])
       @ (if WasmQuery_ContractInfo w = None then [] else [''contract_info''])
       @ (if WasmQuery_CodeInfo w = None then [] else [''code_info''])
       @ (if WasmQuery_RawRange w = None then [] else [''raw_range''])
   \<and> keys_of (RawRangeQuery_json q)
     = [''contract_addr''] @ (if len_slice (RawRangeQuery_Start q) = 0 then [] else [''start''])
       @ (if len_slice (RawRangeQuery_End q) = 0 then [] else [''end'']) @ [''limit'', ''order'']
   \<and> keys_of (ListChannelsQuery_json l)
     = (if ListChannelsQuery_PortID l = [] then [] else [''port_id''])
   \<and> keys_of (ChannelQuery_json c)
     = (if ChannelQuery_PortID c = [] then [] else [''port_id'']) @ [''channel_id'']
   \<and> keys_of (AllDenomMetadataQuery_json pc a)
     = (if AllDenomMetadataQuery_Pagination a = None then [] else [''pagination''])
   \<and> keys_of (ContractInfoResponse_json r)
     = [''code_id'', ''creator''] @ (if ContractInfoResponse_Admin r = [] then [] else [''admin''])
       @ [''pinned''] @ (if ContractInfoResponse_IBCPort r = [] then [] else [''ibc_port''])
       @ (if ContractInfoResponse_IBC2Port r = [] then [] else [''ibc2_port''])
   \<and> ValidatorResponse_json v
     = JObj [(''validator'',
              case ValidatorResponse_Validator v of None \<Rightarrow> JNull | Some y \<Rightarrow> Validator_json y)]
   \<and> RawRangeResponse_json Array_json n
     = JObj [(''data'', Array_json (RawRangeResponse_Data n)),
             (''next_key'',
              case RawRangeResponse_NextKey n of None \<Rightarrow> JNull | Some y \<Rightarrow> JStr (b64_encode y))]"
proof (intro conjI)
  show "keys_of (QueryRequest_json pc x)
     = (if Bank x = None then [] else [''bank'']) @ (if Custom x = None then [] else [''custom''])
       @ (if IBC x = None then [] else [''ibc'']) @ (if Staking x = None then [] else [''staking''])
       @ (if Distribution x = None then [] else [''distribution''])
       @ (if Stargate x = None then [] else [''stargate''])
       @ (if Grpc x = None then [] else [''grpc'']) @ (if Wasm x = None then [] else [''wasm''])"
    by (simp add: QueryRequest_json_def observe_eval)
qed (simp_all add: BankQuery_json_def IBCQuery_json_def StakingQuery_json_def
       DistributionQuery_json_def WasmQuery_json_def RawRangeQuery_json_def
       ListChannelsQuery_json_def ChannelQuery_json_def AllDenomMetadataQuery_json_def
       ContractInfoResponse_json_def ValidatorResponse_json_def RawRangeResponse_json_def
       enc_ptr_def enc_bytes_def observe_eval)

theorem encode_omitempty_witness:
  "keys_of (RawRangeQuery_json
     \<lparr>RawRangeQuery_ContractAddr = ''c'', RawRangeQuery_Start = Some [],
      RawRangeQuery_End = Some ''z'', RawRangeQuery_Limit = 10, RawRangeQuery_Order = ''ascending''\<rparr>)
     = [''contract_addr'', ''end'', ''limit'', ''order'']"
  using encode_omitempty
          [where q = "\<lparr>RawRangeQuery_ContractAddr = ''c'', RawRangeQuery_Start = Some [],
      RawRangeQuery_End = Some ''z'', RawRangeQuery_Limit = 10, RawRangeQuery_Order = ''ascending''\<rparr>",
           THEN conjunct2, THEN conjunct2, THEN conjunct2, THEN conjunct2, THEN conjunct2,
           THEN conjunct2, THEN conjunct1]
  by (simp add: len_slice_def)

section \<open>Classification of a responder's outcome\<close>

text \<open>
  C5. \<^verbatim>\<open>ToQuerierResult\<close> has exactly three outcomes: a nil error wraps the payload as
  \<^verbatim>\<open>QuerierResult{Ok: &QueryResult{Ok: response}}\<close>; an error that \<^verbatim>\<open>ToSystemError\<close> classifies
  as a system error becomes \<^verbatim>\<open>QuerierResult{Err: syserr}\<close>; every other error becomes the inner
  failure \<^verbatim>\<open>QuerierResult{Ok: &QueryResult{Err: err.Error()}}\<close>.
\<close>

theorem ToQuerierResult_three_tiers:
  "ToQuerierResult tse msg response None
     = \<lparr>qr_Ok = Some \<lparr>Ok = response, Err = []\<rparr>, qr_Err = None\<rparr>
   \<and> (tse e = Some syserr \<longrightarrow>
        ToQuerierResult tse msg response (Some e) = \<lparr>qr_Ok = None, qr_Err = Some syserr\<rparr>)
   \<and> (tse e = None \<longrightarrow>
        ToQuerierResult tse msg response (Some e)
          = \<lparr>qr_Ok = Some \<lparr>Ok = None, Err = msg e\<rparr>, qr_Err = None\<rparr>)"
  by (simp add: ToQuerierResult_def)

theorem ToQuerierResult_three_tiers_witness:
  "ToQuerierResult (\<lambda>e. if e = ''out of gas'' then Some (SystemError_zero\<lparr>Unknown := Some ()\<rparr>) else None)
       (\<lambda>e. e) (Some ''x'') (Some ''out of gas'')
     = \<lparr>qr_Ok = None, qr_Err = Some (SystemError_zero\<lparr>Unknown := Some ()\<rparr>)\<rparr>
   \<and> ToQuerierResult (\<lambda>e. if e = ''out of gas'' then Some (SystemError_zero\<lparr>Unknown := Some ()\<rparr>) else None)
       (\<lambda>e. e) (Some ''x'') (Some ''no such validator'')
     = \<lparr>qr_Ok = Some \<lparr>Ok = None, Err = ''no such validator''\<rparr>, qr_Err = None\<rparr>"
  using ToQuerierResult_three_tiers
          [of "\<lambda>e. if e = ''out of gas'' then Some (SystemError_zero\<lparr>Unknown := Some ()\<rparr>) else None"
              "\<lambda>e. e" "Some ''x''" "''out of gas''" "SystemError_zero\<lparr>Unknown := Some ()\<rparr>"]
        ToQuerierResult_three_tiers
          [of "\<lambda>e. if e = ''out of gas'' then Some (SystemError_zero\<lparr>Unknown := Some ()\<rparr>) else None"
              "\<lambda>e. e" "Some ''x''" "''no such validator''"]
  by simp

section \<open>The result of a dispatch\<close>

text \<open>
  C10. Whatever the request bytes (\<^verbatim>\<open>nil\<close> and empty included), the decoder, the querier and
  the gas limit, the \<^verbatim>\<open>QuerierResult\<close> that \<^verbatim>\<open>RustQuery\<close> returns has exactly one of
  \<^verbatim>\<open>Ok\<close> and \<^verbatim>\<open>Err\<close> non-nil. (The querier is a non-nil interface value: it is a function.)
\<close>

theorem RustQuery_exactly_one:
  "(qr_Ok (RustQuery tse msg unmarshal querier binRequest gasLimit) = None)
     \<noteq> (qr_Err (RustQuery tse msg unmarshal querier binRequest gasLimit) = None)"
  by (simp add: RustQuery_def ToQuerierResult_def split: sum.split prod.split option.split)

text \<open>
  C4. When the request bytes fail to decode, \<^verbatim>\<open>RustQuery\<close> returns
  \<^verbatim>\<open>QuerierResult{Err: &SystemError{InvalidRequest: &InvalidRequest{Err: err.Error(), Request: binRequest}}}\<close>
  with the input bytes unchanged in \<^verbatim>\<open>Request\<close>. On every other path the result is
  \<^verbatim>\<open>ToQuerierResult\<close> of what the querier returned for the decoded request: the raw bytes are
  passed neither to the querier nor to the result, so two inputs that decode to the same request
  give the same result.
\<close>

theorem RustQuery_decode_failure_echo:
  "(unmarshal b = Inl err \<longrightarrow>
      RustQuery tse msg unmarshal querier b g
        = \<lparr>qr_Ok = None,
           qr_Err = Some \<lparr>InvalidRequest = Some \<lparr>ir_Err = msg err, ir_Request = b\<rparr>,
                           UnsupportedRequest = None, NoSuchContract = None, Unknown = None\<rparr>\<rparr>)
   \<and> (unmarshal b = Inr r \<longrightarrow>
      RustQuery tse msg unmarshal querier b g
        = ToQuerierResult tse msg (fst (querier r g)) (snd (querier r g)))
   \<and> (unmarshal b = Inr r \<and> unmarshal b' = Inr r \<longrightarrow>
      RustQuery tse msg unmarshal querier b g = RustQuery tse msg unmarshal querier b' g)"
  by (simp add: RustQuery_def SystemError_zero_def split: prod.split)

theorem RustQuery_decode_failure_echo_witness:
  "RustQuery (\<lambda>e. None) (\<lambda>e. ''invalid request'')
       (\<lambda>b. json_Unmarshal
               (QueryRequest_dec \<lparr>pr_zero = (), pr_json = (\<lambda>p. JObj []), pr_dec = (\<lambda>v p. Inr p)\<rparr>)
               b QueryRequest_zero)
       (\<lambda>r g. (Some ''payload'', None)) (Some ''{\"bank\":'') 7
     = \<lparr>qr_Ok = None,
        qr_Err = Some \<lparr>InvalidRequest =
                          Some \<lparr>ir_Err = ''invalid request'', ir_Request = Some ''{\"bank\":''\<rparr>,
                        UnsupportedRequest = None, NoSuchContract = None, Unknown = None\<rparr>\<rparr>
   \<and> RustQuery (\<lambda>e. None) (\<lambda>e. ''invalid request'')
       (\<lambda>b. json_Unmarshal
               (QueryRequest_dec \<lparr>pr_zero = (), pr_json = (\<lambda>p. JObj []), pr_dec = (\<lambda>v p. Inr p)\<rparr>)
               b QueryRequest_zero)
       (\<lambda>r g. (Some ''payload'', None)) (Some ''{}'') 7
     = RustQuery (\<lambda>e. None) (\<lambda>e. ''invalid request'')
       (\<lambda>b. json_Unmarshal
               (QueryRequest_dec \<lparr>pr_zero = (), pr_json = (\<lambda>p. JObj []), pr_dec = (\<lambda>v p. Inr p)\<rparr>)
               b QueryRequest_zero)
       (\<lambda>r g. (Some ''payload'', None)) (Some '' {} '') 7"
proof -
  let ?pc = "\<lparr>pr_zero = (), pr_json = (\<lambda>p. JObj []), pr_dec = (\<lambda>v p. Inr p)\<rparr>"
  let ?unm = "\<lambda>b. json_Unmarshal (QueryRequest_dec ?pc) b QueryRequest_zero"
  have f: "?unm (Some ''{\"bank\":'') = Inl SyntaxError"
    by code_simp
  have s1: "?unm (Some ''{}'') = Inr QueryRequest_zero"
    by code_simp
  have s2: "?unm (Some '' {} '') = Inr QueryRequest_zero"
    by code_simp
  from RustQuery_decode_failure_echo
         [where unmarshal = ?unm and b = "Some ''{\"bank\":''" and err = SyntaxError,
          THEN conjunct1] f
  have a: "RustQuery (\<lambda>e. None) (\<lambda>e. ''invalid request'') ?unm
             (\<lambda>r g. (Some ''payload'', None)) (Some ''{\"bank\":'') 7
     = \<lparr>qr_Ok = None,
        qr_Err = Some \<lparr>InvalidRequest =
                          Some \<lparr>ir_Err = ''invalid request'', ir_Request = Some ''{\"bank\":''\<rparr>,
                        UnsupportedRequest = None, NoSuchContract = None, Unknown = None\<rparr>\<rparr>"
    by simp
  from RustQuery_decode_failure_echo
         [where unmarshal = ?unm and b = "Some ''{}''" and b' = "Some '' {} ''"
            and r = QueryRequest_zero, THEN conjunct2, THEN conjunct2] s1 s2
  have b: "RustQuery (\<lambda>e. None) (\<lambda>e. ''invalid request'') ?unm
             (\<lambda>r g. (Some ''payload'', None)) (Some ''{}'') 7
         = RustQuery (\<lambda>e. None) (\<lambda>e. ''invalid request'') ?unm
             (\<lambda>r g. (Some ''payload'', None)) (Some '' {} '') 7"
    by simp
  from a b show ?thesis by simp
qed

end
